theory Spec2Isabelle
  imports Complex_Main "HOL-Library.Word"
begin

section \<open>Binary data: \<open>atob\<close>, typed arrays and blobs\<close>

text \<open>
  The page component \<open>ConversationalAI\<close> turns the base64 text of a synthesized reply
  into a \<open>Blob\<close> before it is played. A JavaScript string is modelled by the list of the
  code units that \<open>charCodeAt\<close> reads; a \<open>Uint8Array\<close> is a list of bytes; a \<open>Blob\<close> is
  its byte sequence together with its type.
\<close>

type_synonym byte = "8 word"

record Blob =
  blob_bytes :: "byte list"
  blob_type :: string

definition blob_size :: "Blob \<Rightarrow> nat" where
  "blob_size b = length (blob_bytes b)"

text \<open>
  \<open>new Blob(parts, { type })\<close>: the parts are concatenated in order. The platform keeps
  the type only when all its characters are in the range U+0020 to U+007E, and then in
  lower case.
\<close>

definition ascii_lower :: "char \<Rightarrow> char" where
  "ascii_lower c =
     (let n = (of_char c :: nat) in if 65 \<le> n \<and> n \<le> 90 then char_of (n + 32) else c)"

definition normalize_type :: "string \<Rightarrow> string" where
  "normalize_type t =
     (if (\<forall>c \<in> set t. 32 \<le> (of_char c :: nat) \<and> (of_char c :: nat) \<le> 126)
      then map ascii_lower t else [])"

definition new_Blob :: "byte list list \<Rightarrow> string \<Rightarrow> Blob" where
  "new_Blob parts t = \<lparr>blob_bytes = concat parts, blob_type = normalize_type t\<rparr>"

text \<open>
  \<open>atob\<close> is the platform's forgiving base64 decoder: ASCII whitespace is dropped, up to
  two padding characters are removed from an input whose length is a multiple of four,
  an input of length one modulo four or with a character outside the alphabet raises
  \<open>InvalidCharacterError\<close>, and every group of four characters gives three code units
  (a trailing group of two or three gives one or two).
\<close>

definition ascii_whitespace :: "char \<Rightarrow> bool" where
  "ascii_whitespace c = ((of_char c :: nat) \<in> {9, 10, 12, 13, 32})"

definition b64_value :: "char \<Rightarrow> nat option" where
  "b64_value c =
     (let n = (of_char c :: nat) in
      if 65 \<le> n \<and> n \<le> 90 then Some (n - 65)
      else if 97 \<le> n \<and> n \<le> 122 then Some (n - 71)
      else if 48 \<le> n \<and> n \<le> 57 then Some (n + 4)
      else if n = 43 then Some 62
      else if n = 47 then Some 63
      else None)"

definition strip_padding :: "string \<Rightarrow> string" where
  "strip_padding s =
     (if length s mod 4 = 0 \<and> s \<noteq> [] \<and> last s = CHR ''=''
      then (if butlast s \<noteq> [] \<and> last (butlast s) = CHR ''=''
            then butlast (butlast s) else butlast s)
      else s)"

fun b64_values :: "string \<Rightarrow> nat list option" where
  "b64_values [] = Some []"
| "b64_values (c # cs) =
     (case b64_value c of
        None \<Rightarrow> None
      | Some v \<Rightarrow> (case b64_values cs of None \<Rightarrow> None | Some vs \<Rightarrow> Some (v # vs)))"

fun b64_groups :: "nat list \<Rightarrow> nat list" where
  "b64_groups (a # b # c # d # rest) =
     (a * 4 + b div 16) # ((b mod 16) * 16 + c div 4) # ((c mod 4) * 64 + d) # b64_groups rest"
| "b64_groups [a, b, c] = [a * 4 + b div 16, (b mod 16) * 16 + c div 4]"
| "b64_groups [a, b] = [a * 4 + b div 16]"
| "b64_groups _ = []"

datatype js_error = InvalidCharacterError | Error string

definition atob :: "string \<Rightarrow> js_error + nat list" where
  "atob base64 =
     (let s = strip_padding (filter (\<lambda>c. \<not> ascii_whitespace c) base64) in
      if length s mod 4 = 1 then Inl InvalidCharacterError
      else (case b64_values s of
              None \<Rightarrow> Inl InvalidCharacterError
            | Some vs \<Rightarrow> Inr (b64_groups vs)))"

text \<open>
  \<open>String.prototype.slice(a, b)\<close> for \<open>0 \<le> a \<le> b\<close>: the end is clamped to the length.
\<close>

definition js_slice :: "'a list \<Rightarrow> nat \<Rightarrow> nat \<Rightarrow> 'a list" where
  "js_slice s a b = take (min b (length s) - a) (drop a s)"

text \<open>
  \<open>new Array(n)\<close> has \<open>n\<close> empty slots; \<open>new Uint8Array(numbers)\<close> converts every element
  with ToUint8, which reduces a number modulo 256 and reads an empty slot as 0.
\<close>

definition new_Array :: "nat \<Rightarrow> nat option list" where
  "new_Array n = replicate n None"

definition ToUint8 :: "nat option \<Rightarrow> byte" where
  "ToUint8 x = (case x of None \<Rightarrow> 0 | Some n \<Rightarrow> of_nat n)"

definition new_Uint8Array :: "nat option list \<Rightarrow> byte list" where
  "new_Uint8Array byteNumbers = map ToUint8 byteNumbers"

text \<open>The inner loop of \<open>base64ToBlob\<close>: \<open>byteNumbers[i] = slice.charCodeAt(i)\<close>.\<close>

function fill_byteNumbers :: "nat list \<Rightarrow> nat \<Rightarrow> nat option list \<Rightarrow> nat option list" where
  "fill_byteNumbers slice_str i byteNumbers =
     (if i < length slice_str
      then fill_byteNumbers slice_str (i + 1) (byteNumbers[i := Some (slice_str ! i)])
      else byteNumbers)"
  by pat_completeness auto
termination
  by (relation "measure (\<lambda>(slice_str, i, byteNumbers). length slice_str - i)") auto

text \<open>The outer loop: \<open>for (let offset = 0; offset < length; offset += 512)\<close>.\<close>

function base64ToBlob_loop :: "nat list \<Rightarrow> nat \<Rightarrow> byte list list \<Rightarrow> byte list list" where
  "base64ToBlob_loop byteCharacters offset byteArrays =
     (if offset < length byteCharacters
      then (let slice_str = js_slice byteCharacters offset (offset + 512);
                byteNumbers = fill_byteNumbers slice_str 0 (new_Array (length slice_str));
                byteArray = new_Uint8Array byteNumbers
            in base64ToBlob_loop byteCharacters (offset + 512) (byteArrays @ [byteArray]))
      else byteArrays)"
  by pat_completeness auto
termination
  by (relation "measure (\<lambda>(byteCharacters, offset, byteArrays). length byteCharacters - offset)")
     auto

definition base64ToBlob :: "string \<Rightarrow> string \<Rightarrow> js_error + Blob" where
  "base64ToBlob base64 mimeType =
     (case atob base64 of
        Inl e \<Rightarrow> Inl e
      | Inr byteCharacters \<Rightarrow> Inr (new_Blob (base64ToBlob_loop byteCharacters 0 []) mimeType))"


section \<open>The conversation component: data and state\<close>

text \<open>
  The state of \<open>ConversationalAI\<close>: its React state variables, its refs, and the part of
  the platform it drives (audio elements, recorders, capture streams, audio contexts,
  suspended asynchronous work). Objects live in lists and are named by their index.
\<close>

datatype persona = adult | kid

record ConversationSession =
  sessionId :: "string option"
  isActive :: bool
  currentAudio :: "nat option"

record LearningProgress =
  goalsMet :: int
  totalGoals :: int
  currentGoals :: "string list"

record InteractionResponse =
  success :: bool
  aiResponse :: string
  audioResponse :: "string option"
  responseProgress :: "LearningProgress option"

datatype speaker = user | ai

text \<open>An \<open>HTMLAudioElement\<close> created by \<open>playAIAudio\<close>, with the object URL it plays.\<close>

record HTMLAudioElement =
  src :: Blob
  paused :: bool
  currentTime :: nat
  playPending :: bool
  onended :: bool
  urlRevoked :: bool

datatype RecordingState = Inactive | Recording | Paused

text \<open>
  A \<open>MediaRecorder\<close>: \<open>stop()\<close> makes it inactive at once and queues its
  \<open>dataavailable\<close> and \<open>stop\<close> events; \<open>handler_session\<close> is the \<open>session\<close> value seen by
  the render whose \<open>startRecording\<close> installed the handlers.
\<close>

record MediaRecorder =
  rec_state :: RecordingState
  rec_stream :: nat
  stop_queued :: bool
  handler_session :: ConversationSession

text \<open>The variables closed over by \<open>detectVoice\<close> inside \<open>startVADLoop\<close>.\<close>

record vad_loop =
  lastSpeechTime :: int
  lastSilenceTime :: int
  loop_session :: ConversationSession

datatype request =
    PostStart persona
  | PostInteract string Blob
  | PostAiSpeaking string string nat
  | PostAiFinished string
  | PostComplete string

datatype effect =
    Console string
  | Fetch request
  | GetUserMedia
  | AudioPlay nat
  | AudioPause nat
  | RecorderStart nat
  | RecorderStop nat
  | TrackStop nat
  | ContextClose nat
  | CancelAnimationFrame nat
  | RevokeObjectURL nat

text \<open>
  Suspended work: an \<open>async\<close> function waiting at an \<open>await\<close> (with the \<open>session\<close> value
  its render captured), or a \<open>requestAnimationFrame\<close> callback.
\<close>

datatype continuation =
    AwaitStartFetch ConversationSession
  | AwaitGetUserMedia ConversationSession
  | AwaitInteractFetch ConversationSession
  | AwaitCompleteFetch
  | AnimationFrame vad_loop

record state =
  session :: ConversationSession
  conversationHistory :: "(speaker \<times> string) list"
  learningProgress :: "LearningProgress option"
  error :: "string option"
  isProcessing :: bool
  audioLevel :: real
  isSpeaking :: bool
  isUserSpeaking :: bool
  selectedPersona :: persona
  audioContextRef :: "nat option"
  analyserRef :: "nat option"
  mediaStreamRef :: "nat option"
  mediaRecorderRef :: "nat option"
  audioChunksRef :: "Blob list"
  rafRef :: "nat option"
  isSpeakingRef :: bool
  speechStartTimeRef :: "int option"
  sessionActiveRef :: bool
  sessionIdRef :: "string option"
  audioUnlockedRef :: bool
  currentAudioRef :: "nat option"
  audios :: "HTMLAudioElement list"
  mediaRecorders :: "MediaRecorder list"
  mediaStreams :: "bool list"
  audioContexts :: "bool list"
  pending :: "continuation option list"
  unlockPending :: nat
  effects :: "effect list"

definition initial_session :: ConversationSession where
  "initial_session = \<lparr>sessionId = None, isActive = False, currentAudio = None\<rparr>"

definition initial_state :: state where
  "initial_state =
     \<lparr>session = initial_session, conversationHistory = [], learningProgress = None,
      error = None, isProcessing = False, audioLevel = 0, isSpeaking = False,
      isUserSpeaking = False, selectedPersona = adult,
      audioContextRef = None, analyserRef = None, mediaStreamRef = None,
      mediaRecorderRef = None, audioChunksRef = [], rafRef = None, isSpeakingRef = False,
      speechStartTimeRef = None, sessionActiveRef = False, sessionIdRef = None,
      audioUnlockedRef = False, currentAudioRef = None,
      audios = [], mediaRecorders = [], mediaStreams = [], audioContexts = [],
      pending = [], unlockPending = 0, effects = []\<rparr>"

definition SPEECH_THRESHOLD :: real where "SPEECH_THRESHOLD = 0.0150"
definition SILENCE_THRESHOLD :: real where "SILENCE_THRESHOLD = 0.0070"
definition MIN_SPEECH_DURATION :: int where "MIN_SPEECH_DURATION = 100"
definition SILENCE_DURATION :: int where "SILENCE_DURATION = 700"

definition emit :: "effect \<Rightarrow> state \<Rightarrow> state" where
  "emit e s = s\<lparr>effects := effects s @ [e]\<rparr>"

definition suspend :: "continuation \<Rightarrow> state \<Rightarrow> state" where
  "suspend k s = s\<lparr>pending := pending s @ [Some k]\<rparr>"

text \<open>JavaScript truthiness of a string that may be \<open>null\<close>: the empty string is falsy.\<close>

definition truthy :: "string option \<Rightarrow> bool" where
  "truthy x = (case x of None \<Rightarrow> False | Some t \<Rightarrow> t \<noteq> [])"

text \<open>
  \<open>err instanceof Error ? err.message : fallback\<close>; every error modelled is an \<open>Error\<close>.
  The message of the error raised by \<open>atob\<close> is the platform's text.
\<close>

definition message :: "js_error \<Rightarrow> string" where
  "message e = (case e of InvalidCharacterError \<Rightarrow> ''Invalid character'' | Error m \<Rightarrow> m)"

datatype 'a fetch_result = Rejected js_error | NotOk | Body 'a


section \<open>Operations of the component\<close>

text \<open>
  \<open>unlockAudio\<close> plays a silent clip; its promise settles later (\<open>unlock_settled\<close>).
\<close>

definition unlockAudio :: "state \<Rightarrow> state" where
  "unlockAudio s =
     (if audioUnlockedRef s then s
      else (emit (Console ''[Audio] Unlocking audio playback'') s)
             \<lparr>unlockPending := unlockPending s + 1\<rparr>)"

definition unlock_settled :: "bool \<Rightarrow> state \<Rightarrow> state" where
  "unlock_settled ok s =
     (let s1 = s\<lparr>unlockPending := unlockPending s - 1\<rparr> in
      if ok then (emit (Console ''[Audio] Audio unlocked successfully'') s1)
                   \<lparr>audioUnlockedRef := True\<rparr>
      else emit (Console ''[Audio] Failed to unlock audio'') s1)"

text \<open>
  The three statements \<open>pause(); currentTime = 0; onended = null\<close> that \<open>stopAIAudio\<close>
  applies to an audio element inside \<open>try { ... } catch (e) {}\<close>.
\<close>

definition halt_audio :: "nat \<Rightarrow> state \<Rightarrow> state" where
  "halt_audio a s =
     emit (AudioPause a)
       (s\<lparr>audios := (audios s)[a := (audios s ! a)\<lparr>paused := True, currentTime := 0,
                                                   onended := False\<rparr>]\<rparr>)"

text \<open>
  \<open>stopAIAudio\<close>. Its first argument is the value of the state variable \<open>session\<close> that
  the calling closure sees (the render that created the closure), which the fallback
  branch reads; the ref and the setters act on the current state.
\<close>

definition stopAIAudio :: "ConversationSession \<Rightarrow> state \<Rightarrow> state" where
  "stopAIAudio seen s =
     (let s1 = emit (Console ''[Audio] Interrupting AI speech'') s;
          s2 = (case currentAudioRef s1 of
                  None \<Rightarrow> s1
                | Some a \<Rightarrow> (halt_audio a s1)\<lparr>currentAudioRef := None\<rparr>);
          s3 = (case currentAudio seen of
                  None \<Rightarrow> s2
                | Some a \<Rightarrow> halt_audio a s2);
          s4 = s3\<lparr>isSpeaking := False\<rparr>
      in s4\<lparr>session := (session s4)\<lparr>currentAudio := None\<rparr>\<rparr>)"

text \<open>\<open>sendAudioToBackend\<close> up to its \<open>await fetch(...)\<close>.\<close>

definition sendAudioToBackend :: "ConversationSession \<Rightarrow> Blob \<Rightarrow> state \<Rightarrow> state" where
  "sendAudioToBackend seen audioBlob s =
     (if \<not> truthy (sessionIdRef s)
      then emit (Console ''[Audio] No sessionId available, cannot send audio'') s
      else (let s1 = s\<lparr>isProcessing := True, error := None\<rparr>;
                s2 = emit (Console ''[Audio] Sending audio to backend'') s1;
                s3 = emit (Fetch (PostInteract (the (sessionIdRef s2)) audioBlob)) s2
            in suspend (AwaitInteractFetch seen) s3))"

definition new_Audio :: "Blob \<Rightarrow> HTMLAudioElement" where
  "new_Audio b = \<lparr>src = b, paused = True, currentTime = 0, playPending = False,
                  onended = False, urlRevoked = False\<rparr>"

text \<open>
  \<open>playAIAudio\<close>. \<open>atob\<close> may raise inside \<open>base64ToBlob\<close>, after \<open>stopAIAudio\<close> has run:
  the result is the raised error, if any, and the state reached.
\<close>

definition playAIAudio ::
  "ConversationSession \<Rightarrow> string \<Rightarrow> string \<Rightarrow> state \<Rightarrow> js_error option \<times> state" where
  "playAIAudio seen base64Audio textResponse s =
     (let s1 = emit (Console ''[Audio] Playing AI response'') s;
          s2 = stopAIAudio seen s1
      in case base64ToBlob base64Audio ''audio/mpeg'' of
           Inl e \<Rightarrow> (Some e, s2)
         | Inr audioBlob \<Rightarrow>
             (let audio = length (audios s2);
                  s3 = s2\<lparr>audios := audios s2 @ [new_Audio audioBlob]\<rparr>;
                  s4 = (if truthy (sessionIdRef s3)
                        then emit (Fetch (PostAiSpeaking (the (sessionIdRef s3)) textResponse
                                            (length textResponse * 50))) s3
                        else s3);
                  s5 = s4\<lparr>isSpeaking := True, currentAudioRef := Some audio\<rparr>;
                  s6 = s5\<lparr>session := (session s5)\<lparr>currentAudio := Some audio\<rparr>\<rparr>;
                  s7 = emit (AudioPlay audio)
                         (s6\<lparr>audios := (audios s6)[audio := (audios s6 ! audio)
                                 \<lparr>paused := False, playPending := True\<rparr>]\<rparr>);
                  s8 = s7\<lparr>audios := (audios s7)[audio := (audios s7 ! audio)
                                 \<lparr>onended := True\<rparr>]\<rparr>
              in (None, s8)))"

text \<open>The \<open>catch\<close> handler of \<open>audio.play()\<close> and the \<open>onended\<close> handler of an element.\<close>

definition play_rejected :: "nat \<Rightarrow> state \<Rightarrow> state" where
  "play_rejected audio s =
     (let s1 = emit (Console ''[Audio] Failed to play audio'') s;
          s2 = s1\<lparr>error := Some ''Failed to play audio. Please ensure audio is allowed in your browser.'',
                  isSpeaking := False, currentAudioRef := None\<rparr>;
          s3 = s2\<lparr>session := (session s2)\<lparr>currentAudio := None\<rparr>\<rparr>
      in emit (RevokeObjectURL audio)
           (s3\<lparr>audios := (audios s3)[audio := (audios s3 ! audio)\<lparr>urlRevoked := True\<rparr>]\<rparr>))"

definition audio_onended :: "nat \<Rightarrow> state \<Rightarrow> state" where
  "audio_onended audio s =
     (let s1 = emit (Console ''[Audio] AI finished speaking'') s;
          s2 = s1\<lparr>isSpeaking := False, currentAudioRef := None\<rparr>;
          s3 = (if truthy (sessionIdRef s2)
                then emit (Fetch (PostAiFinished (the (sessionIdRef s2)))) s2 else s2);
          s4 = s3\<lparr>session := (session s3)\<lparr>currentAudio := None\<rparr>\<rparr>
      in emit (RevokeObjectURL audio)
           (s4\<lparr>audios := (audios s4)[audio := (audios s4 ! audio)\<lparr>urlRevoked := True\<rparr>]\<rparr>))"

text \<open>\<open>sendAudioToBackend\<close> after its \<open>await\<close>: the \<open>try\<close> body, \<open>catch\<close> and \<open>finally\<close>.\<close>

definition interact_catch :: "js_error \<Rightarrow> state \<Rightarrow> state" where
  "interact_catch e s = (emit (Console ''[Audio] Error'') s)\<lparr>error := Some (message e)\<rparr>"

definition sendAudioToBackend_resume ::
  "ConversationSession \<Rightarrow> InteractionResponse fetch_result \<Rightarrow> state \<Rightarrow> state" where
  "sendAudioToBackend_resume seen r s =
     (let s' = (case r of
                  Rejected e \<Rightarrow> interact_catch e s
                | NotOk \<Rightarrow> interact_catch (Error ''Failed to process audio'') s
                | Body data \<Rightarrow>
                    (let s1 = emit (Console ''[Audio] Response received'') s;
                         s2 = s1\<lparr>conversationHistory := conversationHistory s1 @
                                   [(user, ''[Audio Message]''), (ai, aiResponse data)]\<rparr>;
                         s3 = (case responseProgress data of
                                 None \<Rightarrow> s2
                               | Some p \<Rightarrow> s2\<lparr>learningProgress := Some p\<rparr>)
                     in if success data \<and> truthy (audioResponse data)
                        then (case playAIAudio seen (the (audioResponse data)) (aiResponse data) s3 of
                                (Some e, s4) \<Rightarrow> interact_catch e s4
                              | (None, s4) \<Rightarrow> s4)
                        else s3))
      in s'\<lparr>isProcessing := False\<rparr>)"

text \<open>\<open>mediaRecorderRef.current?.state\<close>.\<close>

definition recorder_state :: "state \<Rightarrow> RecordingState option" where
  "recorder_state s =
     (case mediaRecorderRef s of
        None \<Rightarrow> None
      | Some r \<Rightarrow> Some (rec_state (mediaRecorders s ! r)))"

definition startRecording :: "ConversationSession \<Rightarrow> state \<Rightarrow> state" where
  "startRecording seen s =
     (if mediaStreamRef s = None \<or> recorder_state s = Some Recording then s
      else (let s1 = emit (Console ''[VAD] Starting recording'') s;
                s2 = s1\<lparr>audioChunksRef := []\<rparr>;
                mediaRecorder = length (mediaRecorders s2);
                s3 = s2\<lparr>mediaRecorders := mediaRecorders s2 @
                          [\<lparr>rec_state = Inactive, rec_stream = the (mediaStreamRef s2),
                            stop_queued = False, handler_session = seen\<rparr>]\<rparr>;
                s4 = s3\<lparr>mediaRecorderRef := Some mediaRecorder\<rparr>;
                s5 = emit (RecorderStart mediaRecorder)
                       (s4\<lparr>mediaRecorders := (mediaRecorders s4)[mediaRecorder :=
                              (mediaRecorders s4 ! mediaRecorder)\<lparr>rec_state := Recording\<rparr>]\<rparr>)
            in s5\<lparr>isUserSpeaking := True\<rparr>))"

text \<open>\<open>MediaRecorder.stop()\<close>.\<close>

definition recorder_stop :: "nat \<Rightarrow> state \<Rightarrow> state" where
  "recorder_stop r s =
     emit (RecorderStop r)
       (s\<lparr>mediaRecorders := (mediaRecorders s)[r :=
            (mediaRecorders s ! r)\<lparr>rec_state := Inactive, stop_queued := True\<rparr>]\<rparr>)"

definition stopRecording :: "state \<Rightarrow> state" where
  "stopRecording s =
     (if recorder_state s = Some Recording
      then (recorder_stop (the (mediaRecorderRef s))
              (emit (Console ''[VAD] Stopping recording'') s))\<lparr>isUserSpeaking := False\<rparr>
      else s)"

text \<open>
  The queued events of a stopped recorder: \<open>ondataavailable\<close> with the captured data,
  then \<open>onstop\<close>.
\<close>

definition recorder_events :: "nat \<Rightarrow> Blob \<Rightarrow> state \<Rightarrow> state" where
  "recorder_events r data s =
     (let s0 = s\<lparr>mediaRecorders := (mediaRecorders s)[r :=
                   (mediaRecorders s ! r)\<lparr>stop_queued := False\<rparr>]\<rparr>;
          s1 = (if blob_size data > 0
                then s0\<lparr>audioChunksRef := audioChunksRef s0 @ [data]\<rparr> else s0);
          audioBlob = new_Blob (map blob_bytes (audioChunksRef s1)) ''audio/webm'';
          s2 = emit (Console ''[VAD] Recording stopped'') s1
      in if blob_size audioBlob > 0
         then sendAudioToBackend (handler_session (mediaRecorders s2 ! r)) audioBlob s2
         else s2)"

definition requestAnimationFrame :: "vad_loop \<Rightarrow> state \<Rightarrow> state" where
  "requestAnimationFrame loop s =
     (suspend (AnimationFrame loop) s)\<lparr>rafRef := Some (length (pending s))\<rparr>"

text \<open>
  \<open>detectVoice\<close>, one run of the voice-activity loop, for the clock reading \<open>now\<close> and the
  root-mean-square level \<open>rms\<close> read from the analyser. It returns the new values of the
  variables it closes over together with the new state.
\<close>

definition detectVoice :: "vad_loop \<Rightarrow> int \<Rightarrow> real \<Rightarrow> state \<Rightarrow> vad_loop \<times> state" where
  "detectVoice loop now rms s =
     (if \<not> sessionActiveRef s
      then (loop, emit (Console ''[VAD] Loop stopped - session not active'') s)
      else (let s1 = s\<lparr>audioLevel := rms\<rparr>;
                s2 = (if now div 500 \<noteq> lastSilenceTime loop div 500
                      then emit (Console ''[VAD] RMS'') s1 else s1);
                (loop', s3) =
                  (if rms > SPEECH_THRESHOLD
                   then (let loop1 = loop\<lparr>lastSpeechTime := now\<rparr> in
                         if \<not> isSpeakingRef s2
                         then (case speechStartTimeRef s2 of
                                 None \<Rightarrow> (loop1, s2\<lparr>speechStartTimeRef := Some now\<rparr>)
                               | Some t0 \<Rightarrow>
                                   if now - t0 > MIN_SPEECH_DURATION
                                   then (let s21 = emit (Console ''[VAD] Speech detected, starting recording'') s2;
                                             s22 = s21\<lparr>isSpeakingRef := True\<rparr>;
                                             s23 = stopAIAudio (loop_session loop) s22
                                         in (loop1, startRecording (loop_session loop) s23))
                                   else (loop1, s2))
                         else (loop1, s2))
                   else if rms < SILENCE_THRESHOLD
                   then (let loop1 = loop\<lparr>lastSilenceTime := now\<rparr> in
                         if isSpeakingRef s2 \<and> now - lastSpeechTime loop > SILENCE_DURATION
                         then (let s21 = emit (Console ''[VAD] Silence detected, stopping recording'') s2;
                                   s22 = s21\<lparr>isSpeakingRef := False, speechStartTimeRef := None\<rparr>
                               in (loop1, stopRecording s22))
                         else (loop1, s2))
                   else (loop, s2))
            in (loop', requestAnimationFrame loop' s3)))"

definition startVADLoop :: "ConversationSession \<Rightarrow> int \<Rightarrow> int \<Rightarrow> real \<Rightarrow> state \<Rightarrow> state" where
  "startVADLoop seen t0 now rms s =
     (if analyserRef s = None then s
      else snd (detectVoice \<lparr>lastSpeechTime = 0, lastSilenceTime = t0, loop_session = seen\<rparr>
                  now rms s))"


text \<open>
  \<open>initializeAudio\<close> waits for \<open>getUserMedia\<close>. The capture device may be refused; the
  construction of the audio pipeline after it may raise; otherwise the loop starts, with
  the readings \<open>t0\<close> (the clock in \<open>startVADLoop\<close>), \<open>now\<close> and \<open>rms\<close> of its first run.
\<close>

datatype media_result =
    MediaDenied js_error
  | PipelineFailed js_error
  | MediaGranted int int real

definition initializeAudio :: "ConversationSession \<Rightarrow> state \<Rightarrow> state" where
  "initializeAudio seen s =
     suspend (AwaitGetUserMedia seen)
       (emit GetUserMedia (emit (Console ''[Audio] Initializing audio system'') s))"

text \<open>
  The rest of \<open>initializeAudio\<close>: the raised error (logged and thrown again by its
  \<open>catch\<close>), if any, and the state reached.
\<close>

definition initializeAudio_resume ::
  "ConversationSession \<Rightarrow> media_result \<Rightarrow> state \<Rightarrow> js_error option \<times> state" where
  "initializeAudio_resume seen r s =
     (case r of
        MediaDenied e \<Rightarrow> (Some e, emit (Console ''[Audio] Failed to initialize'') s)
      | PipelineFailed e \<Rightarrow>
          (let stream = length (mediaStreams s);
               s1 = s\<lparr>mediaStreams := mediaStreams s @ [True], mediaStreamRef := Some stream\<rparr>
           in (Some e, emit (Console ''[Audio] Failed to initialize'') s1))
      | MediaGranted t0 now rms \<Rightarrow>
          (let stream = length (mediaStreams s);
               s1 = s\<lparr>mediaStreams := mediaStreams s @ [True], mediaStreamRef := Some stream\<rparr>;
               audioContext = length (audioContexts s1);
               s2 = s1\<lparr>audioContexts := audioContexts s1 @ [True],
                       audioContextRef := Some audioContext\<rparr>;
               s3 = s2\<lparr>analyserRef := Some audioContext\<rparr>;
               s4 = emit (Console ''[Audio] Audio system initialized'') s3
           in (None, startVADLoop seen t0 now rms s4)))"

text \<open>
  \<open>cleanupAudio\<close>, statement by statement: cancel the scheduled frame, stop the recorder
  if it is recording, stop the tracks of the capture stream, close the audio context, then
  reset the analyser and the detector's refs.
\<close>

definition cancel_scheduled_frame :: "state \<Rightarrow> state" where
  "cancel_scheduled_frame s =
     (case rafRef s of
        None \<Rightarrow> s
      | Some i \<Rightarrow> (emit (CancelAnimationFrame i)
                     (s\<lparr>pending := (pending s)[i := None]\<rparr>))\<lparr>rafRef := None\<rparr>)"

definition stop_active_recorder :: "state \<Rightarrow> state" where
  "stop_active_recorder s =
     (if recorder_state s = Some Recording
      then recorder_stop (the (mediaRecorderRef s)) s else s)"

definition release_stream :: "state \<Rightarrow> state" where
  "release_stream s =
     (case mediaStreamRef s of
        None \<Rightarrow> s
      | Some m \<Rightarrow> (emit (TrackStop m)
                     (s\<lparr>mediaStreams := (mediaStreams s)[m := False]\<rparr>))
                   \<lparr>mediaStreamRef := None\<rparr>)"

definition close_context :: "state \<Rightarrow> state" where
  "close_context s =
     (case audioContextRef s of
        None \<Rightarrow> s
      | Some c \<Rightarrow> (emit (ContextClose c)
                     (s\<lparr>audioContexts := (audioContexts s)[c := False]\<rparr>))
                   \<lparr>audioContextRef := None\<rparr>)"

definition cleanupAudio :: "state \<Rightarrow> state" where
  "cleanupAudio s =
     (let s1 = emit (Console ''[Audio] Cleaning up'') s;
          s2 = cancel_scheduled_frame s1;
          s3 = stop_active_recorder s2;
          s4 = release_stream s3;
          s5 = close_context s4
      in s5\<lparr>analyserRef := None, isSpeakingRef := False, speechStartTimeRef := None\<rparr>)"

text \<open>\<open>startConversation\<close> up to \<open>await fetch(...)\<close>, and its \<open>catch\<close> block.\<close>

definition startConversation :: "ConversationSession \<Rightarrow> state \<Rightarrow> state" where
  "startConversation seen s =
     (let s1 = s\<lparr>error := None\<rparr>;
          s2 = emit (Console ''[Session] Starting conversation with persona'') s1;
          s3 = unlockAudio s2;
          s4 = emit (Fetch (PostStart (selectedPersona s3))) s3
      in suspend (AwaitStartFetch seen) s4)"

definition start_catch :: "js_error \<Rightarrow> state \<Rightarrow> state" where
  "start_catch e s = (emit (Console ''[Session] Error starting'') s)\<lparr>error := Some (message e)\<rparr>"

text \<open>
  After the start request has settled: the session refs and state are set, then
  \<open>initializeAudio\<close> is awaited. The body of a successful response is \<open>data.sessionId\<close>.
\<close>

definition startConversation_resume ::
  "ConversationSession \<Rightarrow> string option fetch_result \<Rightarrow> state \<Rightarrow> state" where
  "startConversation_resume seen r s =
     (case r of
        Rejected e \<Rightarrow> start_catch e s
      | NotOk \<Rightarrow> start_catch (Error ''Failed to start session'') s
      | Body data_sessionId \<Rightarrow>
          (let s1 = emit (Console ''[Session] Session started'') s;
               s2 = s1\<lparr>sessionIdRef := data_sessionId, sessionActiveRef := True\<rparr>;
               s3 = s2\<lparr>session := \<lparr>sessionId = data_sessionId, isActive = True,
                                     currentAudio = None\<rparr>\<rparr>;
               s4 = s3\<lparr>conversationHistory := [], learningProgress := None\<rparr>
           in initializeAudio seen s4))"

text \<open>After \<open>await initializeAudio()\<close> has settled.\<close>

definition startConversation_media ::
  "ConversationSession \<Rightarrow> media_result \<Rightarrow> state \<Rightarrow> state" where
  "startConversation_media seen r s =
     (case initializeAudio_resume seen r s of
        (Some e, s1) \<Rightarrow> start_catch e s1
      | (None, s1) \<Rightarrow> emit (Console ''[VAD] VAD loop should be running now'') s1)"

text \<open>\<open>endConversation\<close> up to \<open>await fetch(...)\<close>, and after it.\<close>

definition endConversation :: "ConversationSession \<Rightarrow> state \<Rightarrow> state" where
  "endConversation seen s =
     (if \<not> truthy (sessionIdRef s) then s
      else (let currentSessionId = the (sessionIdRef s);
                s1 = emit (Console ''[Session] Ending conversation'') s;
                s2 = s1\<lparr>sessionActiveRef := False\<rparr>;
                s3 = cleanupAudio s2;
                s4 = stopAIAudio seen s3;
                s5 = emit (Fetch (PostComplete currentSessionId)) s4
            in suspend AwaitCompleteFetch s5))"

definition endConversation_resume :: "unit fetch_result \<Rightarrow> state \<Rightarrow> state" where
  "endConversation_resume r s =
     (case r of
        Rejected e \<Rightarrow>
          (emit (Console ''[Session] Error ending'') s)\<lparr>error := Some (message e)\<rparr>
      | _ \<Rightarrow>
          (let s1 = s\<lparr>sessionIdRef := None\<rparr>;
               s2 = s1\<lparr>session := \<lparr>sessionId = None, isActive = False, currentAudio = None\<rparr>\<rparr>
           in emit (Console ''[Session] Conversation ended'') s2))"

text \<open>The cleanup of the effect registered on mount; its closure is the first render's.\<close>

definition unmount :: "state \<Rightarrow> state" where
  "unmount s = stopAIAudio initial_session (cleanupAudio s)"

text \<open>
  \<open>statusLabel\<close>, the turn state shown to the user: \<open>Ready\<close> is the idle state, then
  \<open>Processing\<close>, \<open>AI Speaking\<close>, \<open>You Speaking\<close> and \<open>Listening\<close>.
\<close>

definition statusLabel :: "state \<Rightarrow> string" where
  "statusLabel s =
     (if \<not> isActive (session s) then ''Ready''
      else if isProcessing s then ''Processing''
      else if isSpeaking s then ''AI Speaking''
      else if isUserSpeaking s then ''You Speaking''
      else ''Listening'')"

section \<open>Events and runs\<close>

text \<open>
  What the environment can do: press the button that is shown, settle a pending request or
  promise, deliver an animation frame with a clock and level reading, deliver the events
  of a stopped recorder with the captured data, end a playback, unmount the component.
  An event that is not enabled in a state has no successor.
\<close>

datatype event =
    ClickStart
  | ClickEnd
  | UnlockSettled bool
  | StartResponse nat "string option fetch_result"
  | UserMedia nat media_result
  | Frame nat int real
  | RecorderEvents nat Blob
  | InteractResponse nat "InteractionResponse fetch_result"
  | CompleteResponse nat "unit fetch_result"
  | PlaySettled nat bool
  | TimeUpdate nat nat
  | AudioEnded nat
  | Unmount

definition resume :: "nat \<Rightarrow> state \<Rightarrow> (continuation \<times> state) option" where
  "resume i s =
     (if i < length (pending s)
      then (case pending s ! i of
              None \<Rightarrow> None
            | Some k \<Rightarrow> Some (k, s\<lparr>pending := (pending s)[i := None]\<rparr>))
      else None)"

definition playing :: "state \<Rightarrow> nat \<Rightarrow> bool" where
  "playing s a = (a < length (audios s) \<and> \<not> paused (audios s ! a) \<and> \<not> playPending (audios s ! a))"

definition set_audio :: "nat \<Rightarrow> (HTMLAudioElement \<Rightarrow> HTMLAudioElement) \<Rightarrow> state \<Rightarrow> state" where
  "set_audio a f s = s\<lparr>audios := (audios s)[a := f (audios s ! a)]\<rparr>"

fun step :: "event \<Rightarrow> state \<Rightarrow> state option" where
  "step ClickStart s =
     (if isActive (session s) then None else Some (startConversation (session s) s))"
| "step ClickEnd s =
     (if isActive (session s) then Some (endConversation (session s) s) else None)"
| "step (UnlockSettled ok) s =
     (if unlockPending s > 0 then Some (unlock_settled ok s) else None)"
| "step (StartResponse i r) s =
     (case resume i s of
        Some (AwaitStartFetch seen, s') \<Rightarrow> Some (startConversation_resume seen r s')
      | _ \<Rightarrow> None)"
| "step (UserMedia i r) s =
     (case resume i s of
        Some (AwaitGetUserMedia seen, s') \<Rightarrow> Some (startConversation_media seen r s')
      | _ \<Rightarrow> None)"
| "step (Frame i now rms) s =
     (case resume i s of
        Some (AnimationFrame loop, s') \<Rightarrow> Some (snd (detectVoice loop now rms s'))
      | _ \<Rightarrow> None)"
| "step (RecorderEvents r data) s =
     (if r < length (mediaRecorders s) \<and> stop_queued (mediaRecorders s ! r)
      then Some (recorder_events r data s) else None)"
| "step (InteractResponse i r) s =
     (case resume i s of
        Some (AwaitInteractFetch seen, s') \<Rightarrow> Some (sendAudioToBackend_resume seen r s')
      | _ \<Rightarrow> None)"
| "step (CompleteResponse i r) s =
     (case resume i s of
        Some (AwaitCompleteFetch, s') \<Rightarrow> Some (endConversation_resume r s')
      | _ \<Rightarrow> None)"
| "step (PlaySettled a ok) s =
     (if a < length (audios s) \<and> playPending (audios s ! a)
      then (if ok
            then (if paused (audios s ! a) then None
                  else Some (set_audio a (\<lambda>el. el\<lparr>playPending := False\<rparr>) s))
            else Some (play_rejected a
                         (set_audio a (\<lambda>el. el\<lparr>playPending := False, paused := True\<rparr>) s)))
      else None)"
| "step (TimeUpdate a t) s =
     (if playing s a then Some (set_audio a (\<lambda>el. el\<lparr>currentTime := t\<rparr>) s) else None)"
| "step (AudioEnded a) s =
     (if playing s a
      then (let s1 = set_audio a (\<lambda>el. el\<lparr>paused := True\<rparr>) s
            in Some (if onended (audios s1 ! a) then audio_onended a s1 else s1))
      else None)"
| "step Unmount s = Some (unmount s)"

fun run :: "event list \<Rightarrow> state \<Rightarrow> state option" where
  "run [] s = Some s"
| "run (e # es) s = (case step e s of None \<Rightarrow> None | Some s' \<Rightarrow> run es s')"


section \<open>Observations\<close>

text \<open>
  The voice-activity detector emits \<open>SpeechStart\<close> when \<open>detectVoice\<close> switches
  \<open>isSpeakingRef\<close> on (the branch that calls \<open>startRecording\<close>) and \<open>SpeechEnd\<close> when it
  switches it off (the branch that calls \<open>stopRecording\<close>). \<open>vad_events\<close> feeds a
  sequence of samples (clock reading, level) to one loop and lists what each one emits.
\<close>

datatype vad_event = SpeechStart | SpeechEnd

definition vad_edge :: "bool \<Rightarrow> bool \<Rightarrow> vad_event option" where
  "vad_edge before after =
     (if \<not> before \<and> after then Some SpeechStart
      else if before \<and> \<not> after then Some SpeechEnd
      else None)"

fun vad_events :: "vad_loop \<Rightarrow> state \<Rightarrow> (int \<times> real) list \<Rightarrow> vad_event option list" where
  "vad_events loop s [] = []"
| "vad_events loop s ((now, rms) # samples) =
     (case detectVoice loop now rms s of
        (loop', s') \<Rightarrow>
          vad_edge (isSpeakingRef s) (isSpeakingRef s') # vad_events loop' s' samples)"

text \<open>The effects performed by a step from \<open>s\<close> to \<open>s'\<close>, and the requests among effects.\<close>

definition new_effects :: "state \<Rightarrow> state \<Rightarrow> effect list" where
  "new_effects s s' = drop (length (effects s)) (effects s')"

fun requests :: "effect list \<Rightarrow> request list" where
  "requests [] = []"
| "requests (Fetch r # es) = r # requests es"
| "requests (_ # es) = requests es"

fun is_interact :: "continuation option \<Rightarrow> bool" where
  "is_interact (Some (AwaitInteractFetch _)) = True"
| "is_interact _ = False"

text \<open>
  How many submit-utterance requests are in flight, how many recorders are recording,
  how many audio elements are playing.
\<close>

definition in_flight :: "state \<Rightarrow> nat" where
  "in_flight s = length (filter is_interact (pending s))"

definition open_recordings :: "state \<Rightarrow> nat" where
  "open_recordings s = length (filter (\<lambda>r. rec_state r = Recording) (mediaRecorders s))"

definition live_playbacks :: "state \<Rightarrow> nat" where
  "live_playbacks s = length (filter (playing s) [0..<length (audios s)])"

text \<open>
  The audio elements after the three halting statements of \<open>stopAIAudio\<close> have been applied
  to the element \<open>x\<close>, if there is one, and the pause effects that go with it.
\<close>

definition halted :: "HTMLAudioElement list \<Rightarrow> nat option \<Rightarrow> HTMLAudioElement list" where
  "halted xs x =
     (case x of
        None \<Rightarrow> xs
      | Some a \<Rightarrow> xs[a := (xs ! a)\<lparr>paused := True, currentTime := 0, onended := False\<rparr>])"

definition pauses :: "nat option \<Rightarrow> effect list" where
  "pauses x = (case x of None \<Rightarrow> [] | Some a \<Rightarrow> [AudioPause a])"

definition issued :: "state \<Rightarrow> request list" where
  "issued s = requests (effects s)"

section \<open>Reference runs\<close>

text \<open>
  Concrete runs of the component from its initial state, used to exercise the theorems
  below: a session is started with session id \<open>s1\<close>; the user speaks (two frames above
  the speech threshold, 110 ms apart); the recorder captures \<open>sample_clip\<close>; the
  service answers with a text and the base64 audio \<open>SGk=\<close>.
\<close>

definition sample_clip :: Blob where
  "sample_clip = \<lparr>blob_bytes = [1, 2, 3], blob_type = ''audio/webm''\<rparr>"

definition sample_reply :: "string \<Rightarrow> InteractionResponse fetch_result" where
  "sample_reply t =
     Body \<lparr>success = True, aiResponse = t, audioResponse = Some ''SGk='',
           responseProgress = None\<rparr>"

definition session_trace :: "event list" where
  "session_trace =
     [ClickStart, StartResponse 0 (Body (Some ''s1'')), UserMedia 1 (MediaGranted 0 0 0)]"

definition utterance_trace :: "event list" where
  "utterance_trace = [Frame 2 10 0.02, Frame 3 120 0.02]"

definition processing_trace :: "event list" where
  "processing_trace =
     session_trace @ utterance_trace @
     [Frame 4 900 0, RecorderEvents 0 sample_clip, Frame 5 910 0.02]"

definition ai_speaking_trace :: "event list" where
  "ai_speaking_trace =
     session_trace @ utterance_trace @
     [Frame 4 900 0, RecorderEvents 0 sample_clip, InteractResponse 6 (sample_reply ''one''),
      PlaySettled 0 True, Frame 5 910 0.02]"

definition ended_trace :: "event list" where
  "ended_trace =
     session_trace @ utterance_trace @
     [ClickEnd, RecorderEvents 0 sample_clip, CompleteResponse 5 (Body ())]"

text \<open>
  Three utterances are submitted before any answer arrives; the first playback is
  rejected after the second has started; then the third answer arrives.
\<close>

definition playback_race_trace :: "event list" where
  "playback_race_trace =
     processing_trace @
     [Frame 7 1020 0.02, Frame 8 1800 0, RecorderEvents 1 sample_clip,
      Frame 9 1810 0.02, Frame 11 1920 0.02, Frame 12 2700 0, RecorderEvents 2 sample_clip,
      InteractResponse 6 (sample_reply ''one''), InteractResponse 10 (sample_reply ''two''),
      PlaySettled 0 False, PlaySettled 1 True,
      InteractResponse 14 (sample_reply ''three''), PlaySettled 2 True]"

text \<open>
  A second utterance is being recorded when the first answer arrives and is played; the
  second utterance is then submitted, and the user starts to speak again while the reply
  is playing and the second request is in flight.
\<close>

definition processing_playing_trace :: "event list" where
  "processing_playing_trace =
     processing_trace @
     [Frame 7 1020 0.02, InteractResponse 6 (sample_reply ''one''), PlaySettled 0 True,
      Frame 8 1800 0, RecorderEvents 1 sample_clip, Frame 9 1810 0.02]"

text \<open>The states these runs reach (see the lemmas \<open>reach_*\<close>).\<close>

definition listening_state :: state where
  "listening_state =
   \<lparr>session = \<lparr>sessionId = Some ''s1'', isActive = True, currentAudio = None\<rparr>,
      conversationHistory = [], learningProgress = None, error = None,
      isProcessing = False, audioLevel = 0, isSpeaking = False, isUserSpeaking = False,
      selectedPersona = adult, audioContextRef = Some 0, analyserRef = Some 0,
      mediaStreamRef = Some 0, mediaRecorderRef = None, audioChunksRef = [],
      rafRef = Some 2, isSpeakingRef = False, speechStartTimeRef = None,
      sessionActiveRef = True, sessionIdRef = Some ''s1'', audioUnlockedRef = False,
      currentAudioRef = None, audios = [], mediaRecorders = [], mediaStreams = [True],
      audioContexts = [True],
      pending =
        [None, None,
         Some
          (AnimationFrame
            \<lparr>lastSpeechTime = 0, lastSilenceTime = 0,
               loop_session = \<lparr>sessionId = None, isActive = False, currentAudio = None\<rparr>\<rparr>)],
      unlockPending = 1,
      effects =
        [Console ''[Session] Starting conversation with persona'',
         Console ''[Audio] Unlocking audio playback'', Fetch (PostStart adult),
         Console ''[Session] Session started'',
         Console ''[Audio] Initializing audio system'', GetUserMedia,
         Console ''[Audio] Audio system initialized'',
         Console ''[VAD] VAD loop should be running now'']\<rparr>"

definition user_speaking_state :: state where
  "user_speaking_state =
   \<lparr>session = \<lparr>sessionId = Some ''s1'', isActive = True, currentAudio = None\<rparr>,
      conversationHistory = [], learningProgress = None, error = None,
      isProcessing = False, audioLevel = 1 / 50, isSpeaking = False, isUserSpeaking = True,
      selectedPersona = adult, audioContextRef = Some 0, analyserRef = Some 0,
      mediaStreamRef = Some 0, mediaRecorderRef = Some 0, audioChunksRef = [],
      rafRef = Some 4, isSpeakingRef = True, speechStartTimeRef = Some 10,
      sessionActiveRef = True, sessionIdRef = Some ''s1'', audioUnlockedRef = False,
      currentAudioRef = None, audios = [],
      mediaRecorders =
        [\<lparr>rec_state = Recording, rec_stream = 0, stop_queued = False,
            handler_session = \<lparr>sessionId = None, isActive = False, currentAudio = None\<rparr>\<rparr>],
      mediaStreams = [True], audioContexts = [True],
      pending =
        [None, None, None, None,
         Some
          (AnimationFrame
            \<lparr>lastSpeechTime = 120, lastSilenceTime = 0,
               loop_session = \<lparr>sessionId = None, isActive = False, currentAudio = None\<rparr>\<rparr>)],
      unlockPending = 1,
      effects =
        [Console ''[Session] Starting conversation with persona'',
         Console ''[Audio] Unlocking audio playback'', Fetch (PostStart adult),
         Console ''[Session] Session started'',
         Console ''[Audio] Initializing audio system'', GetUserMedia,
         Console ''[Audio] Audio system initialized'',
         Console ''[VAD] VAD loop should be running now'',
         Console ''[VAD] Speech detected, starting recording'',
         Console ''[Audio] Interrupting AI speech'', Console ''[VAD] Starting recording'',
         RecorderStart 0]\<rparr>"

definition processing_state :: state where
  "processing_state =
   \<lparr>session = \<lparr>sessionId = Some ''s1'', isActive = True, currentAudio = None\<rparr>,
      conversationHistory = [], learningProgress = None, error = None, isProcessing = True,
      audioLevel = 1 / 50, isSpeaking = False, isUserSpeaking = False,
      selectedPersona = adult, audioContextRef = Some 0, analyserRef = Some 0,
      mediaStreamRef = Some 0, mediaRecorderRef = Some 0,
      audioChunksRef = [\<lparr>blob_bytes = [1, 2, 3], blob_type = ''audio/webm''\<rparr>],
      rafRef = Some 7, isSpeakingRef = False, speechStartTimeRef = Some 910,
      sessionActiveRef = True, sessionIdRef = Some ''s1'', audioUnlockedRef = False,
      currentAudioRef = None, audios = [],
      mediaRecorders =
        [\<lparr>rec_state = Inactive, rec_stream = 0, stop_queued = False,
            handler_session = \<lparr>sessionId = None, isActive = False, currentAudio = None\<rparr>\<rparr>],
      mediaStreams = [True], audioContexts = [True],
      pending =
        [None, None, None, None, None, None,
         Some
          (AwaitInteractFetch \<lparr>sessionId = None, isActive = False, currentAudio = None\<rparr>),
         Some
          (AnimationFrame
            \<lparr>lastSpeechTime = 910, lastSilenceTime = 900,
               loop_session = \<lparr>sessionId = None, isActive = False, currentAudio = None\<rparr>\<rparr>)],
      unlockPending = 1,
      effects =
        [Console ''[Session] Starting conversation with persona'',
         Console ''[Audio] Unlocking audio playback'', Fetch (PostStart adult),
         Console ''[Session] Session started'',
         Console ''[Audio] Initializing audio system'', GetUserMedia,
         Console ''[Audio] Audio system initialized'',
         Console ''[VAD] VAD loop should be running now'',
         Console ''[VAD] Speech detected, starting recording'',
         Console ''[Audio] Interrupting AI speech'', Console ''[VAD] Starting recording'',
         RecorderStart 0, Console ''[VAD] RMS'',
         Console ''[VAD] Silence detected, stopping recording'',
         Console ''[VAD] Stopping recording'', RecorderStop 0,
         Console ''[VAD] Recording stopped'', Console ''[Audio] Sending audio to backend'',
         Fetch
          (PostInteract ''s1'' \<lparr>blob_bytes = [1, 2, 3], blob_type = ''audio/webm''\<rparr>)]\<rparr>"

definition ai_speaking_state :: state where
  "ai_speaking_state =
   \<lparr>session = \<lparr>sessionId = Some ''s1'', isActive = True, currentAudio = Some 0\<rparr>,
      conversationHistory = [(user, ''[Audio Message]''), (ai, ''one'')],
      learningProgress = None, error = None, isProcessing = False, audioLevel = 1 / 50,
      isSpeaking = True, isUserSpeaking = False, selectedPersona = adult,
      audioContextRef = Some 0, analyserRef = Some 0, mediaStreamRef = Some 0,
      mediaRecorderRef = Some 0,
      audioChunksRef = [\<lparr>blob_bytes = [1, 2, 3], blob_type = ''audio/webm''\<rparr>],
      rafRef = Some 7, isSpeakingRef = False, speechStartTimeRef = Some 910,
      sessionActiveRef = True, sessionIdRef = Some ''s1'', audioUnlockedRef = False,
      currentAudioRef = Some 0,
      audios =
        [\<lparr>src = \<lparr>blob_bytes = [72, 105], blob_type = ''audio/mpeg''\<rparr>, paused = False,
            currentTime = 0, playPending = False, onended = True, urlRevoked = False\<rparr>],
      mediaRecorders =
        [\<lparr>rec_state = Inactive, rec_stream = 0, stop_queued = False,
            handler_session = \<lparr>sessionId = None, isActive = False, currentAudio = None\<rparr>\<rparr>],
      mediaStreams = [True], audioContexts = [True],
      pending =
        [None, None, None, None, None, None, None,
         Some
          (AnimationFrame
            \<lparr>lastSpeechTime = 910, lastSilenceTime = 900,
               loop_session = \<lparr>sessionId = None, isActive = False, currentAudio = None\<rparr>\<rparr>)],
      unlockPending = 1,
      effects =
        [Console ''[Session] Starting conversation with persona'',
         Console ''[Audio] Unlocking audio playback'', Fetch (PostStart adult),
         Console ''[Session] Session started'',
         Console ''[Audio] Initializing audio system'', GetUserMedia,
         Console ''[Audio] Audio system initialized'',
         Console ''[VAD] VAD loop should be running now'',
         Console ''[VAD] Speech detected, starting recording'',
         Console ''[Audio] Interrupting AI speech'', Console ''[VAD] Starting recording'',
         RecorderStart 0, Console ''[VAD] RMS'',
         Console ''[VAD] Silence detected, stopping recording'',
         Console ''[VAD] Stopping recording'', RecorderStop 0,
         Console ''[VAD] Recording stopped'', Console ''[Audio] Sending audio to backend'',
         Fetch (PostInteract ''s1'' \<lparr>blob_bytes = [1, 2, 3], blob_type = ''audio/webm''\<rparr>),
         Console ''[Audio] Response received'', Console ''[Audio] Playing AI response'',
         Console ''[Audio] Interrupting AI speech'',
         Fetch (PostAiSpeaking ''s1'' ''one'' 150), AudioPlay 0]\<rparr>"

definition ended_state :: state where
  "ended_state =
   \<lparr>session = \<lparr>sessionId = None, isActive = False, currentAudio = None\<rparr>,
      conversationHistory = [], learningProgress = None, error = None, isProcessing = True,
      audioLevel = 1 / 50, isSpeaking = False, isUserSpeaking = True,
      selectedPersona = adult, audioContextRef = None, analyserRef = None,
      mediaStreamRef = None, mediaRecorderRef = Some 0,
      audioChunksRef = [\<lparr>blob_bytes = [1, 2, 3], blob_type = ''audio/webm''\<rparr>],
      rafRef = None, isSpeakingRef = False, speechStartTimeRef = None,
      sessionActiveRef = False, sessionIdRef = None, audioUnlockedRef = False,
      currentAudioRef = None, audios = [],
      mediaRecorders =
        [\<lparr>rec_state = Inactive, rec_stream = 0, stop_queued = False,
            handler_session = \<lparr>sessionId = None, isActive = False, currentAudio = None\<rparr>\<rparr>],
      mediaStreams = [False], audioContexts = [False],
      pending =
        [None, None, None, None, None, None,
         Some
          (AwaitInteractFetch \<lparr>sessionId = None, isActive = False, currentAudio = None\<rparr>)],
      unlockPending = 1,
      effects =
        [Console ''[Session] Starting conversation with persona'',
         Console ''[Audio] Unlocking audio playback'', Fetch (PostStart adult),
         Console ''[Session] Session started'',
         Console ''[Audio] Initializing audio system'', GetUserMedia,
         Console ''[Audio] Audio system initialized'',
         Console ''[VAD] VAD loop should be running now'',
         Console ''[VAD] Speech detected, starting recording'',
         Console ''[Audio] Interrupting AI speech'', Console ''[VAD] Starting recording'',
         RecorderStart 0, Console ''[Session] Ending conversation'',
         Console ''[Audio] Cleaning up'', CancelAnimationFrame 4, RecorderStop 0,
         TrackStop 0, ContextClose 0, Console ''[Audio] Interrupting AI speech'',
         Fetch (PostComplete ''s1''), Console ''[VAD] Recording stopped'',
         Console ''[Audio] Sending audio to backend'',
         Fetch (PostInteract ''s1'' \<lparr>blob_bytes = [1, 2, 3], blob_type = ''audio/webm''\<rparr>),
         Console ''[Session] Conversation ended'']\<rparr>"

definition processing_playing_state :: state where
  "processing_playing_state =
   \<lparr>session = \<lparr>sessionId = Some ''s1'', isActive = True, currentAudio = Some 0\<rparr>,
      conversationHistory = [(user, ''[Audio Message]''), (ai, ''one'')],
      learningProgress = None, error = None, isProcessing = True, audioLevel = 1 / 50,
      isSpeaking = True, isUserSpeaking = False, selectedPersona = adult,
      audioContextRef = Some 0, analyserRef = Some 0, mediaStreamRef = Some 0,
      mediaRecorderRef = Some 1,
      audioChunksRef = [\<lparr>blob_bytes = [1, 2, 3], blob_type = ''audio/webm''\<rparr>],
      rafRef = Some 11, isSpeakingRef = False, speechStartTimeRef = Some 1810,
      sessionActiveRef = True, sessionIdRef = Some ''s1'', audioUnlockedRef = False,
      currentAudioRef = Some 0,
      audios =
        [\<lparr>src = \<lparr>blob_bytes = [72, 105], blob_type = ''audio/mpeg''\<rparr>, paused = False,
            currentTime = 0, playPending = False, onended = True, urlRevoked = False\<rparr>],
      mediaRecorders =
        [\<lparr>rec_state = Inactive, rec_stream = 0, stop_queued = False,
            handler_session = \<lparr>sessionId = None, isActive = False, currentAudio = None\<rparr>\<rparr>,
         \<lparr>rec_state = Inactive, rec_stream = 0, stop_queued = False,
            handler_session = \<lparr>sessionId = None, isActive = False, currentAudio = None\<rparr>\<rparr>],
      mediaStreams = [True], audioContexts = [True],
      pending =
        [None, None, None, None, None, None, None, None, None, None,
         Some
          (AwaitInteractFetch \<lparr>sessionId = None, isActive = False, currentAudio = None\<rparr>),
         Some
          (AnimationFrame
            \<lparr>lastSpeechTime = 1810, lastSilenceTime = 1800,
               loop_session = \<lparr>sessionId = None, isActive = False, currentAudio = None\<rparr>\<rparr>)],
      unlockPending = 1,
      effects =
        [Console ''[Session] Starting conversation with persona'',
         Console ''[Audio] Unlocking audio playback'', Fetch (PostStart adult),
         Console ''[Session] Session started'',
         Console ''[Audio] Initializing audio system'', GetUserMedia,
         Console ''[Audio] Audio system initialized'',
         Console ''[VAD] VAD loop should be running now'',
         Console ''[VAD] Speech detected, starting recording'',
         Console ''[Audio] Interrupting AI speech'', Console ''[VAD] Starting recording'',
         RecorderStart 0, Console ''[VAD] RMS'',
         Console ''[VAD] Silence detected, stopping recording'',
         Console ''[VAD] Stopping recording'', RecorderStop 0,
         Console ''[VAD] Recording stopped'', Console ''[Audio] Sending audio to backend'',
         Fetch (PostInteract ''s1'' \<lparr>blob_bytes = [1, 2, 3], blob_type = ''audio/webm''\<rparr>),
         Console ''[VAD] RMS'', Console ''[VAD] Speech detected, starting recording'',
         Console ''[Audio] Interrupting AI speech'', Console ''[VAD] Starting recording'',
         RecorderStart 1, Console ''[Audio] Response received'',
         Console ''[Audio] Playing AI response'',
         Console ''[Audio] Interrupting AI speech'',
         Fetch (PostAiSpeaking ''s1'' ''one'' 150), AudioPlay 0, Console ''[VAD] RMS'',
         Console ''[VAD] Silence detected, stopping recording'',
         Console ''[VAD] Stopping recording'', RecorderStop 1,
         Console ''[VAD] Recording stopped'', Console ''[Audio] Sending audio to backend'',
         Fetch
          (PostInteract ''s1'' \<lparr>blob_bytes = [1, 2, 3], blob_type = ''audio/webm''\<rparr>)]\<rparr>"

section \<open>The decoded bytes of a reply\<close>

text \<open>
  Both loops of \<open>base64ToBlob\<close> are recursive functions whose defining equations would
  rewrite forever; they are unfolded by hand.
\<close>

declare fill_byteNumbers.simps [simp del] base64ToBlob_loop.simps [simp del]

lemma fill_byteNumbers_gen:
  "length bn = length sl \<Longrightarrow> i \<le> length sl \<Longrightarrow>
   fill_byteNumbers sl i bn = take i bn @ map Some (drop i sl)"
proof (induction sl i bn rule: fill_byteNumbers.induct)
  case (1 sl i bn)
  show ?case
  proof (cases "i < length sl")
    case True
    then have "fill_byteNumbers sl i bn = fill_byteNumbers sl (i + 1) (bn[i := Some (sl ! i)])"
      by (subst fill_byteNumbers.simps) simp
    also have "\<dots> = take (i + 1) (bn[i := Some (sl ! i)]) @ map Some (drop (i + 1) sl)"
      using "1.IH" [OF True] True "1.prems" by simp
    also have "\<dots> = take i bn @ map Some (drop i sl)"
      using True "1.prems"
      by (simp add: take_Suc_conv_app_nth Cons_nth_drop_Suc [symmetric])
    finally show ?thesis .
  next
    case False
    with "1.prems" show ?thesis by (subst fill_byteNumbers.simps) simp
  qed
qed

lemma chunk_bytes:
  "new_Uint8Array (fill_byteNumbers sl 0 (new_Array (length sl))) = map of_nat sl"
  by (simp add: fill_byteNumbers_gen new_Array_def new_Uint8Array_def ToUint8_def)

lemma js_slice_512: "js_slice cs off (off + 512) = take 512 (drop off cs)"
  by (simp add: js_slice_def min_def)

lemma base64ToBlob_loop_unfold:
  "off < length cs \<Longrightarrow>
   base64ToBlob_loop cs off acc =
     base64ToBlob_loop cs (off + 512) (acc @ [map of_nat (take 512 (drop off cs))])"
  by (subst base64ToBlob_loop.simps) (simp only: chunk_bytes js_slice_512 Let_def if_True)

lemma base64ToBlob_loop_done:
  "\<not> off < length cs \<Longrightarrow> base64ToBlob_loop cs off acc = acc"
  by (subst base64ToBlob_loop.simps) (simp only: if_False)

lemma base64ToBlob_loop_concat:
  "concat (base64ToBlob_loop cs off acc) = concat acc @ map of_nat (drop off cs)"
proof (induction cs off acc rule: base64ToBlob_loop.induct)
  case (1 cs off acc)
  show ?case
  proof (cases "off < length cs")
    case True
    have "drop (off + 512) cs = drop 512 (drop off cs)"
      by (simp add: add.commute)
    then have split: "drop off cs = take 512 (drop off cs) @ drop (off + 512) cs"
      by (simp only: append_take_drop_id)
    have "concat (base64ToBlob_loop cs off acc) =
          concat (base64ToBlob_loop cs (off + 512)
                    (acc @ [map of_nat (take 512 (drop off cs))]))"
      by (simp only: base64ToBlob_loop_unfold [OF True])
    also have "\<dots> = concat (acc @ [map of_nat (take 512 (drop off cs))]) @
                     map of_nat (drop (off + 512) cs)"
      using "1.IH" [OF True refl refl refl]
      by (simp only: chunk_bytes js_slice_512)
    also have "\<dots> = concat acc @ (map of_nat (take 512 (drop off cs)) @
                     map of_nat (drop (off + 512) cs))"
      by (simp only: concat_append concat.simps append_Nil2 append_assoc)
    also have "\<dots> = concat acc @ map of_nat (take 512 (drop off cs) @ drop (off + 512) cs)"
      by (simp only: map_append)
    also have "\<dots> = concat acc @ map of_nat (drop off cs)"
      by (simp only: split [symmetric])
    finally show ?thesis .
  next
    case False
    then have "drop off cs = []" by simp
    moreover have "base64ToBlob_loop cs off acc = acc"
      by (rule base64ToBlob_loop_done [OF False])
    ultimately show ?thesis by simp
  qed
qed

lemma b64_value_bound: "b64_value c = Some v \<Longrightarrow> v < 64"
  by (auto simp: b64_value_def Let_def split: if_splits)

lemma b64_values_bound: "b64_values s = Some vs \<Longrightarrow> \<forall>v \<in> set vs. v < 64"
  by (induction s arbitrary: vs) (auto split: option.splits dest: b64_value_bound)

lemma b64_groups_bound: "\<forall>v \<in> set vs. v < 64 \<Longrightarrow> \<forall>c \<in> set (b64_groups vs). c < 256"
  by (induction vs rule: b64_groups.induct) auto

lemma atob_bound: "atob b = Inr cs \<Longrightarrow> \<forall>c \<in> set cs. c < 256"
  by (auto simp: atob_def Let_def split: if_splits option.splits
           dest!: b64_values_bound b64_groups_bound)

lemma unat_of_nat_bytes: "\<forall>c \<in> set cs. c < 256 \<Longrightarrow> map unat (map of_nat cs :: byte list) = cs"
  by (induction cs) (auto simp: unat_of_nat)

text \<open>
  Claim C10. For every base64 text that \<open>atob\<close> accepts and every MIME type,
  \<open>base64ToBlob\<close> returns a blob whose bytes are the decoded code units, in order, each
  code unit read as one byte: cutting the decoded string into slices of 512 loses and
  reorders nothing, whatever the length (a length that is not a multiple of 512 and
  the empty string included).
\<close>

theorem base64ToBlob_bytes:
  assumes "atob base64 = Inr byteCharacters"
  shows "base64ToBlob base64 mimeType =
           Inr \<lparr>blob_bytes = map of_nat byteCharacters, blob_type = normalize_type mimeType\<rparr>
         \<and> map unat (map of_nat byteCharacters :: byte list) = byteCharacters"
proof -
  have "concat (base64ToBlob_loop byteCharacters 0 []) = map of_nat byteCharacters"
    by (simp add: base64ToBlob_loop_concat)
  then have "base64ToBlob base64 mimeType =
           Inr \<lparr>blob_bytes = map of_nat byteCharacters, blob_type = normalize_type mimeType\<rparr>"
    using assms by (simp add: base64ToBlob_def new_Blob_def)
  moreover have "map unat (map of_nat byteCharacters :: byte list) = byteCharacters"
    by (rule unat_of_nat_bytes [OF atob_bound [OF assms]])
  ultimately show ?thesis by (rule conjI)
qed

theorem base64ToBlob_bytes_witness:
  "atob ''SGk='' = Inr [72, 105] \<and>
   base64ToBlob ''SGk='' ''audio/mpeg'' =
     Inr \<lparr>blob_bytes = [72, 105], blob_type = ''audio/mpeg''\<rparr>"
proof -
  have h: "atob ''SGk='' = Inr [72, 105]"
    by (simp add: atob_def strip_padding_def ascii_whitespace_def b64_value_def)
  have t: "normalize_type ''audio/mpeg'' = ''audio/mpeg''"
    by (simp add: normalize_type_def ascii_lower_def)
  show ?thesis
    using h base64ToBlob_bytes [OF h, of "''audio/mpeg''"] by (simp add: t)
qed

section \<open>Evaluating runs\<close>

text \<open>
  Runs are evaluated by rewriting with the definitions of the operations, the bound state
  of every \<open>let\<close> being computed before its body is entered.
\<close>

lemmas component_defs =
  emit_def suspend_def truthy_def message_def
  unlockAudio_def unlock_settled_def halt_audio_def stopAIAudio_def sendAudioToBackend_def
  new_Audio_def playAIAudio_def play_rejected_def audio_onended_def interact_catch_def
  sendAudioToBackend_resume_def recorder_state_def startRecording_def recorder_stop_def
  stopRecording_def recorder_events_def requestAnimationFrame_def detectVoice_def
  startVADLoop_def initializeAudio_def initializeAudio_resume_def cleanupAudio_def
  cancel_scheduled_frame_def stop_active_recorder_def release_stream_def close_context_def
  startConversation_def start_catch_def startConversation_resume_def
  startConversation_media_def endConversation_def endConversation_resume_def unmount_def
  resume_def playing_def set_audio_def
  SPEECH_THRESHOLD_def SILENCE_THRESHOLD_def MIN_SPEECH_DURATION_def SILENCE_DURATION_def
  blob_size_def new_Blob_def normalize_type_def ascii_lower_def

lemmas trace_defs =
  session_trace_def utterance_trace_def processing_trace_def ai_speaking_trace_def
  ended_trace_def playback_race_trace_def sample_clip_def sample_reply_def

lemma sample_audio:
  "base64ToBlob ''SGk='' ''audio/mpeg'' =
     Inr \<lparr>blob_bytes = [72, 105], blob_type = ''audio/mpeg''\<rparr>"
proof -
  have "atob ''SGk='' = Inr [72, 105]"
    by (simp add: atob_def strip_padding_def ascii_whitespace_def b64_value_def)
  then show ?thesis
    by (simp add: base64ToBlob_def new_Blob_def normalize_type_def ascii_lower_def
          base64ToBlob_loop_concat)
qed

lemma run_append:
  "run (es @ es') s = (case run es s of None \<Rightarrow> None | Some s' \<Rightarrow> run es' s')"
  by (induction es arbitrary: s) (auto split: option.splits)

lemma reach_listening: "run session_trace initial_state = Some listening_state"
  apply (simp add: session_trace_def initial_state_def initial_session_def
           component_defs Let_def cong: let_weak_cong)
  apply (simp add: listening_state_def)
  done

lemma reach_user_speaking: "run utterance_trace listening_state = Some user_speaking_state"
  apply (simp add: utterance_trace_def listening_state_def
           component_defs Let_def cong: let_weak_cong)
  apply (simp add: user_speaking_state_def)
  done

lemma reach_processing:
  "run [Frame 4 900 0, RecorderEvents 0 sample_clip, Frame 5 910 0.02] user_speaking_state =
     Some processing_state"
  apply (simp add: sample_clip_def user_speaking_state_def
           component_defs Let_def cong: let_weak_cong)
  apply (simp add: processing_state_def)
  done

lemma reach_ai_speaking:
  "run [Frame 4 900 0, RecorderEvents 0 sample_clip, InteractResponse 6 (sample_reply ''one''),
        PlaySettled 0 True, Frame 5 910 0.02] user_speaking_state =
     Some ai_speaking_state"
  apply (simp add: sample_clip_def sample_reply_def user_speaking_state_def
           component_defs sample_audio Let_def cong: let_weak_cong)
  apply (simp add: ai_speaking_state_def)
  done

lemma reach_ended:
  "run [ClickEnd, RecorderEvents 0 sample_clip, CompleteResponse 5 (Body ())]
     user_speaking_state = Some ended_state"
  apply (simp add: sample_clip_def user_speaking_state_def
           component_defs Let_def cong: let_weak_cong)
  apply (simp add: ended_state_def)
  done

lemma run_processing_trace: "run processing_trace initial_state = Some processing_state"
  by (simp only: processing_trace_def run_append reach_listening reach_user_speaking
        reach_processing option.case)

lemma run_ai_speaking_trace: "run ai_speaking_trace initial_state = Some ai_speaking_state"
  by (simp only: ai_speaking_trace_def run_append reach_listening reach_user_speaking
        reach_ai_speaking option.case)


section \<open>The voice-activity detector\<close>

text \<open>The operations called by \<open>detectVoice\<close> leave the detector's variables alone.\<close>

lemma stopAIAudio_vad [simp]:
  "isSpeakingRef (stopAIAudio seen s) = isSpeakingRef s"
  "speechStartTimeRef (stopAIAudio seen s) = speechStartTimeRef s"
  "sessionActiveRef (stopAIAudio seen s) = sessionActiveRef s"
  by (simp_all add: stopAIAudio_def halt_audio_def emit_def Let_def split: option.splits)

lemma startRecording_vad [simp]:
  "isSpeakingRef (startRecording seen s) = isSpeakingRef s"
  "speechStartTimeRef (startRecording seen s) = speechStartTimeRef s"
  "sessionActiveRef (startRecording seen s) = sessionActiveRef s"
  by (simp_all add: startRecording_def emit_def Let_def)

lemma stopRecording_vad [simp]:
  "isSpeakingRef (stopRecording s) = isSpeakingRef s"
  "speechStartTimeRef (stopRecording s) = speechStartTimeRef s"
  "sessionActiveRef (stopRecording s) = sessionActiveRef s"
  by (simp_all add: stopRecording_def recorder_stop_def emit_def)

lemma requestAnimationFrame_vad [simp]:
  "isSpeakingRef (requestAnimationFrame loop s) = isSpeakingRef s"
  "speechStartTimeRef (requestAnimationFrame loop s) = speechStartTimeRef s"
  "sessionActiveRef (requestAnimationFrame loop s) = sessionActiveRef s"
  by (simp_all add: requestAnimationFrame_def suspend_def)

lemma emit_vad [simp]:
  "isSpeakingRef (emit e s) = isSpeakingRef s"
  "speechStartTimeRef (emit e s) = speechStartTimeRef s"
  "sessionActiveRef (emit e s) = sessionActiveRef s"
  by (simp_all add: emit_def)

text \<open>What one run of the loop does to the variables of the detector.\<close>

lemma detectVoice_inactive:
  "\<not> sessionActiveRef s \<Longrightarrow>
   detectVoice loop now rms s =
     (loop, emit (Console ''[VAD] Loop stopped - session not active'') s)"
  by (simp add: detectVoice_def)

lemma detectVoice_speaking:
  assumes "sessionActiveRef s" and "detectVoice loop now rms s = (loop', s')"
  shows "isSpeakingRef s' =
           (if rms > SPEECH_THRESHOLD
            then (isSpeakingRef s \<or>
                  (\<exists>t0. speechStartTimeRef s = Some t0 \<and> now - t0 > MIN_SPEECH_DURATION))
            else (isSpeakingRef s \<and>
                  \<not> (rms < SILENCE_THRESHOLD \<and> now - lastSpeechTime loop > SILENCE_DURATION)))"
  using assms
  by (auto simp: detectVoice_def Let_def split: if_splits option.splits)

lemma detectVoice_candidate:
  assumes "sessionActiveRef s" and "detectVoice loop now rms s = (loop', s')"
  shows "speechStartTimeRef s' =
           (if rms > SPEECH_THRESHOLD
            then (if \<not> isSpeakingRef s \<and> speechStartTimeRef s = None then Some now
                  else speechStartTimeRef s)
            else (if rms < SILENCE_THRESHOLD \<and> isSpeakingRef s \<and>
                     now - lastSpeechTime loop > SILENCE_DURATION
                  then None else speechStartTimeRef s))"
  using assms
  by (auto simp: detectVoice_def Let_def split: if_splits option.splits)

lemma detectVoice_lastSpeechTime:
  assumes "sessionActiveRef s" and "detectVoice loop now rms s = (loop', s')"
  shows "lastSpeechTime loop' = (if rms > SPEECH_THRESHOLD then now else lastSpeechTime loop)"
  using assms
  by (auto simp: detectVoice_def Let_def split: if_splits option.splits)

lemma detectVoice_active:
  assumes "detectVoice loop now rms s = (loop', s')"
  shows "sessionActiveRef s' = sessionActiveRef s"
  using assms
  by (auto simp: detectVoice_def Let_def split: if_splits option.splits)

lemma vad_events_inactive:
  "\<not> sessionActiveRef s \<Longrightarrow> i < length samples \<Longrightarrow> vad_events loop s samples ! i = None"
proof (induction samples arbitrary: loop s i)
  case Nil
  then show ?case by simp
next
  case (Cons x xs)
  obtain now rms where x: "x = (now, rms)" by (cases x)
  show ?case
  proof (cases i)
    case 0
    with Cons.prems x show ?thesis
      by (simp add: detectVoice_inactive vad_edge_def)
  next
    case (Suc j)
    with Cons.prems x Cons.IH [of "emit (Console ''[VAD] Loop stopped - session not active'') s" j loop]
    show ?thesis
      by (simp add: detectVoice_inactive)
  qed
qed


lemma vad_edge_iff:
  "vad_edge a b = Some SpeechEnd \<longleftrightarrow> a \<and> \<not> b"
  "vad_edge a b = Some SpeechStart \<longleftrightarrow> \<not> a \<and> b"
  "vad_edge a b = None \<longleftrightarrow> (a \<longleftrightarrow> b)"
  by (auto simp: vad_edge_def)

lemma vad_events_active:
  "i < length samples \<Longrightarrow> vad_events loop s samples ! i \<noteq> None \<Longrightarrow> sessionActiveRef s"
  by (rule ccontr) (simp add: vad_events_inactive)

lemma nth_Cons_all:
  "(\<forall>i<Suc n. P ((x # xs) ! i)) \<longleftrightarrow> P x \<and> (\<forall>i<n. P (xs ! i))"
  by (simp add: All_less_Suc2)

lemma nth_Cons_between:
  "(\<forall>i. Suc j < i \<and> i < Suc n \<longrightarrow> P ((x # xs) ! i)) \<longleftrightarrow> (\<forall>i. j < i \<and> i < n \<longrightarrow> P (xs ! i))"
proof
  assume h: "\<forall>i. Suc j < i \<and> i < Suc n \<longrightarrow> P ((x # xs) ! i)"
  show "\<forall>i. j < i \<and> i < n \<longrightarrow> P (xs ! i)"
  proof (intro allI impI)
    fix i assume "j < i \<and> i < n"
    with h [rule_format, of "Suc i"] show "P (xs ! i)" by simp
  qed
next
  assume h: "\<forall>i. j < i \<and> i < n \<longrightarrow> P (xs ! i)"
  show "\<forall>i. Suc j < i \<and> i < Suc n \<longrightarrow> P ((x # xs) ! i)"
  proof (intro allI impI)
    fix i assume i: "Suc j < i \<and> i < Suc n"
    then obtain i' where "i = Suc i'" by (cases i) auto
    with i h [rule_format, of i'] show "P ((x # xs) ! i)" by simp
  qed
qed

lemma nth_Cons_after_head:
  "(\<forall>i. 0 < i \<and> i < Suc n \<longrightarrow> P ((x # xs) ! i)) \<longleftrightarrow> (\<forall>i<n. P (xs ! i))"
proof
  assume h: "\<forall>i. 0 < i \<and> i < Suc n \<longrightarrow> P ((x # xs) ! i)"
  show "\<forall>i<n. P (xs ! i)"
  proof (intro allI impI)
    fix i assume "i < n"
    with h [rule_format, of "Suc i"] show "P (xs ! i)" by simp
  qed
next
  assume h: "\<forall>i<n. P (xs ! i)"
  show "\<forall>i. 0 < i \<and> i < Suc n \<longrightarrow> P ((x # xs) ! i)"
  proof (intro allI impI)
    fix i assume i: "0 < i \<and> i < Suc n"
    then obtain i' where "i = Suc i'" by (cases i) auto
    with i h [rule_format, of i'] show "P ((x # xs) ! i)" by simp
  qed
qed

text \<open>
  Generalised over the state in which the samples start: either some earlier sample was
  above the speech threshold, or the detector was speaking from the start.
\<close>

lemma speech_end_gen:
  assumes "k < length samples" and "vad_events loop s samples ! k = Some SpeechEnd"
  shows "snd (samples ! k) < SILENCE_THRESHOLD \<and>
         ((\<exists>j<k. snd (samples ! j) > SPEECH_THRESHOLD \<and>
                 (\<forall>i. j < i \<and> i < k \<longrightarrow> snd (samples ! i) \<le> SPEECH_THRESHOLD) \<and>
                 fst (samples ! k) - fst (samples ! j) > SILENCE_DURATION)
          \<or> ((\<forall>i<k. snd (samples ! i) \<le> SPEECH_THRESHOLD) \<and> isSpeakingRef s \<and>
              fst (samples ! k) - lastSpeechTime loop > SILENCE_DURATION))"
  using assms
proof (induction samples arbitrary: loop s k)
  case Nil
  then show ?case by simp
next
  case (Cons x xs)
  obtain now rms where x: "x = (now, rms)" by (cases x)
  obtain loop' s' where dv: "detectVoice loop now rms s = (loop', s')"
    by (cases "detectVoice loop now rms s")
  have act: "sessionActiveRef s"
    using vad_events_active [of k "x # xs" loop s] Cons.prems(1,2) by simp
  note sp = detectVoice_speaking [OF act dv]
  note ls = detectVoice_lastSpeechTime [OF act dv]
  show ?case
  proof (cases k)
    case 0
    with Cons.prems x dv have "isSpeakingRef s" and "\<not> isSpeakingRef s'"
      by (simp_all add: vad_edge_iff)
    with sp have "rms < SILENCE_THRESHOLD" and "now - lastSpeechTime loop > SILENCE_DURATION"
      by (auto split: if_splits)
    with 0 x \<open>isSpeakingRef s\<close> show ?thesis by simp
  next
    case (Suc k')
    with Cons.prems x dv have k': "k' < length xs"
      and ev: "vad_events loop' s' xs ! k' = Some SpeechEnd"
      by simp_all
    from Cons.IH [OF k' ev]
    have low: "snd (xs ! k') < SILENCE_THRESHOLD"
      and alt: "(\<exists>j<k'. snd (xs ! j) > SPEECH_THRESHOLD \<and>
                 (\<forall>i. j < i \<and> i < k' \<longrightarrow> snd (xs ! i) \<le> SPEECH_THRESHOLD) \<and>
                 fst (xs ! k') - fst (xs ! j) > SILENCE_DURATION)
          \<or> ((\<forall>i<k'. snd (xs ! i) \<le> SPEECH_THRESHOLD) \<and> isSpeakingRef s' \<and>
              fst (xs ! k') - lastSpeechTime loop' > SILENCE_DURATION)"
      by blast+
    have low': "snd ((x # xs) ! k) < SILENCE_THRESHOLD"
      using low Suc by simp
    from alt show ?thesis
    proof
      assume "\<exists>j<k'. snd (xs ! j) > SPEECH_THRESHOLD \<and>
                 (\<forall>i. j < i \<and> i < k' \<longrightarrow> snd (xs ! i) \<le> SPEECH_THRESHOLD) \<and>
                 fst (xs ! k') - fst (xs ! j) > SILENCE_DURATION"
      then obtain j where j: "j < k'" "snd (xs ! j) > SPEECH_THRESHOLD"
        "\<forall>i. j < i \<and> i < k' \<longrightarrow> snd (xs ! i) \<le> SPEECH_THRESHOLD"
        "fst (xs ! k') - fst (xs ! j) > SILENCE_DURATION"
        by blast
      have "\<forall>i. Suc j < i \<and> i < k \<longrightarrow> snd ((x # xs) ! i) \<le> SPEECH_THRESHOLD"
        unfolding Suc using j(3)
        by (rule iffD2 [OF nth_Cons_between [of j k' "\<lambda>v. snd v \<le> SPEECH_THRESHOLD" x xs]])
      with j Suc have "Suc j < k \<and> snd ((x # xs) ! Suc j) > SPEECH_THRESHOLD \<and>
          (\<forall>i. Suc j < i \<and> i < k \<longrightarrow> snd ((x # xs) ! i) \<le> SPEECH_THRESHOLD) \<and>
          fst ((x # xs) ! k) - fst ((x # xs) ! Suc j) > SILENCE_DURATION"
        by simp
      then have "\<exists>j<k. snd ((x # xs) ! j) > SPEECH_THRESHOLD \<and>
          (\<forall>i. j < i \<and> i < k \<longrightarrow> snd ((x # xs) ! i) \<le> SPEECH_THRESHOLD) \<and>
          fst ((x # xs) ! k) - fst ((x # xs) ! j) > SILENCE_DURATION"
        by (intro exI [of _ "Suc j"])
      with low' show ?thesis by (intro conjI disjI1)
    next
      assume rest: "(\<forall>i<k'. snd (xs ! i) \<le> SPEECH_THRESHOLD) \<and> isSpeakingRef s' \<and>
              fst (xs ! k') - lastSpeechTime loop' > SILENCE_DURATION"
      show ?thesis
      proof (cases "rms > SPEECH_THRESHOLD")
        case True
        with ls have "lastSpeechTime loop' = now" by simp
        moreover have "\<forall>i. 0 < i \<and> i < k \<longrightarrow> snd ((x # xs) ! i) \<le> SPEECH_THRESHOLD"
          unfolding Suc using conjunct1 [OF rest]
          by (rule iffD2 [OF nth_Cons_after_head [of k' "\<lambda>v. snd v \<le> SPEECH_THRESHOLD" x xs]])
        ultimately
        have "0 < k \<and> snd ((x # xs) ! 0) > SPEECH_THRESHOLD \<and>
              (\<forall>i. 0 < i \<and> i < k \<longrightarrow> snd ((x # xs) ! i) \<le> SPEECH_THRESHOLD) \<and>
              fst ((x # xs) ! k) - fst ((x # xs) ! 0) > SILENCE_DURATION"
          using rest Suc x True by simp
        then have "\<exists>j<k. snd ((x # xs) ! j) > SPEECH_THRESHOLD \<and>
          (\<forall>i. j < i \<and> i < k \<longrightarrow> snd ((x # xs) ! i) \<le> SPEECH_THRESHOLD) \<and>
          fst ((x # xs) ! k) - fst ((x # xs) ! j) > SILENCE_DURATION"
          by (intro exI [of _ 0])
        with low' show ?thesis by (intro conjI disjI1)
      next
        case False
        with ls sp rest have "lastSpeechTime loop' = lastSpeechTime loop" and "isSpeakingRef s"
          by (auto split: if_splits)
        moreover have "\<forall>i<k. snd ((x # xs) ! i) \<le> SPEECH_THRESHOLD"
          unfolding Suc using rest False x
          by (simp add: nth_Cons_all [of k' "\<lambda>v. snd v \<le> SPEECH_THRESHOLD"])
        ultimately have "(\<forall>i<k. snd ((x # xs) ! i) \<le> SPEECH_THRESHOLD) \<and> isSpeakingRef s \<and>
              fst ((x # xs) ! k) - lastSpeechTime loop > SILENCE_DURATION"
          using rest Suc by simp
        then show ?thesis using low' by simp
      qed
    qed
  qed
qed

lemma speech_start_gen:
  assumes "k < length samples"
    and "\<not> isSpeakingRef s"
    and "\<forall>i<k. vad_events loop s samples ! i = None"
    and "vad_events loop s samples ! k = Some SpeechStart"
  shows "snd (samples ! k) > SPEECH_THRESHOLD \<and>
         (case speechStartTimeRef s of
            Some c \<Rightarrow> fst (samples ! k) - c > MIN_SPEECH_DURATION
          | None \<Rightarrow> (\<exists>j<k. snd (samples ! j) > SPEECH_THRESHOLD \<and>
                       (\<forall>i<j. snd (samples ! i) \<le> SPEECH_THRESHOLD) \<and>
                       fst (samples ! k) - fst (samples ! j) > MIN_SPEECH_DURATION))"
  using assms
proof (induction samples arbitrary: loop s k)
  case Nil
  then show ?case by simp
next
  case (Cons x xs)
  obtain now rms where x: "x = (now, rms)" by (cases x)
  obtain loop' s' where dv: "detectVoice loop now rms s = (loop', s')"
    by (cases "detectVoice loop now rms s")
  have act: "sessionActiveRef s"
    using vad_events_active [of k "x # xs" loop s] Cons.prems(1,4) by simp
  note sp = detectVoice_speaking [OF act dv]
  note ca = detectVoice_candidate [OF act dv]
  show ?case
  proof (cases k)
    case 0
    with Cons.prems x dv have "isSpeakingRef s'"
      by (simp add: vad_edge_iff)
    with sp Cons.prems(2) have "rms > SPEECH_THRESHOLD"
      and "\<exists>t0. speechStartTimeRef s = Some t0 \<and> now - t0 > MIN_SPEECH_DURATION"
      by (auto split: if_splits)
    with 0 x show ?thesis by auto
  next
    case (Suc k')
    with Cons.prems x dv have k': "k' < length xs"
      and ev: "vad_events loop' s' xs ! k' = Some SpeechStart"
      by simp_all
    from Cons.prems(3) [rule_format, of 0] Suc x dv
    have "vad_edge (isSpeakingRef s) (isSpeakingRef s') = None"
      by simp
    with Cons.prems(2) have quiet: "\<not> isSpeakingRef s'"
      by (simp add: vad_edge_iff)
    have none: "\<forall>i<k'. vad_events loop' s' xs ! i = None"
    proof (intro allI impI)
      fix i assume "i < k'"
      with Cons.prems(3) [rule_format, of "Suc i"] Suc
      have "vad_events loop s (x # xs) ! Suc i = None" by simp
      with x dv show "vad_events loop' s' xs ! i = None" by simp
    qed
    from Cons.IH [OF k' quiet none ev]
    have high: "snd (xs ! k') > SPEECH_THRESHOLD"
      and cand: "(case speechStartTimeRef s' of
            Some c \<Rightarrow> fst (xs ! k') - c > MIN_SPEECH_DURATION
          | None \<Rightarrow> (\<exists>j<k'. snd (xs ! j) > SPEECH_THRESHOLD \<and>
                       (\<forall>i<j. snd (xs ! i) \<le> SPEECH_THRESHOLD) \<and>
                       fst (xs ! k') - fst (xs ! j) > MIN_SPEECH_DURATION))"
      by simp_all
    have high': "snd ((x # xs) ! k) > SPEECH_THRESHOLD"
      using high Suc by simp
    show ?thesis
    proof (cases "speechStartTimeRef s")
      case (Some c)
      with ca Cons.prems(2) have "speechStartTimeRef s' = Some c"
        by (simp split: if_splits)
      with cand high Some Suc show ?thesis by simp
    next
      case None
      show ?thesis
      proof (cases "rms > SPEECH_THRESHOLD")
        case True
        with ca None Cons.prems(2) have "speechStartTimeRef s' = Some now" by simp
        with cand have "fst (xs ! k') - now > MIN_SPEECH_DURATION" by simp
        with True x Suc have "0 < k \<and> snd ((x # xs) ! 0) > SPEECH_THRESHOLD \<and>
                       (\<forall>i<0. snd ((x # xs) ! i) \<le> SPEECH_THRESHOLD) \<and>
                       fst ((x # xs) ! k) - fst ((x # xs) ! 0) > MIN_SPEECH_DURATION"
          by simp
        then have "\<exists>j<k. snd ((x # xs) ! j) > SPEECH_THRESHOLD \<and>
                       (\<forall>i<j. snd ((x # xs) ! i) \<le> SPEECH_THRESHOLD) \<and>
                       fst ((x # xs) ! k) - fst ((x # xs) ! j) > MIN_SPEECH_DURATION"
          by (intro exI [of _ 0])
        with high' None show ?thesis by simp
      next
        case False
        with ca None Cons.prems(2) have "speechStartTimeRef s' = None"
          by (simp split: if_splits)
        with cand obtain j where j: "j < k'" "snd (xs ! j) > SPEECH_THRESHOLD"
          "\<forall>i<j. snd (xs ! i) \<le> SPEECH_THRESHOLD"
          "fst (xs ! k') - fst (xs ! j) > MIN_SPEECH_DURATION"
          by auto
        have "\<forall>i<Suc j. snd ((x # xs) ! i) \<le> SPEECH_THRESHOLD"
          using j(3) False x
          by (simp add: nth_Cons_all [of j "\<lambda>v. snd v \<le> SPEECH_THRESHOLD"])
        with j Suc have "Suc j < k \<and> snd ((x # xs) ! Suc j) > SPEECH_THRESHOLD \<and>
                       (\<forall>i<Suc j. snd ((x # xs) ! i) \<le> SPEECH_THRESHOLD) \<and>
                       fst ((x # xs) ! k) - fst ((x # xs) ! Suc j) > MIN_SPEECH_DURATION"
          by simp
        then have "\<exists>j<k. snd ((x # xs) ! j) > SPEECH_THRESHOLD \<and>
                       (\<forall>i<j. snd ((x # xs) ! i) \<le> SPEECH_THRESHOLD) \<and>
                       fst ((x # xs) ! k) - fst ((x # xs) ! j) > MIN_SPEECH_DURATION"
          by (intro exI [of _ "Suc j"])
        with high' None show ?thesis by simp
      qed
    qed
  qed
qed

text \<open>
  After a \<open>SpeechEnd\<close> the detector is back where it started: not speaking, no candidate
  start. The two theorems below, stated for such a start, therefore describe every
  utterance of a run, not only the first.
\<close>

lemma after_speech_end_reset:
  assumes "detectVoice loop now rms s = (loop', s')"
    and "vad_edge (isSpeakingRef s) (isSpeakingRef s') = Some SpeechEnd"
  shows "\<not> isSpeakingRef s' \<and> speechStartTimeRef s' = None"
proof -
  from assms(2) have sp: "isSpeakingRef s" "\<not> isSpeakingRef s'"
    by (simp_all add: vad_edge_iff)
  have act: "sessionActiveRef s"
  proof (rule ccontr)
    assume "\<not> sessionActiveRef s"
    with assms(1) sp show False by (auto simp: detectVoice_inactive)
  qed
  from detectVoice_speaking [OF act assms(1)] sp
  have "\<not> rms > SPEECH_THRESHOLD" "rms < SILENCE_THRESHOLD"
    "now - lastSpeechTime loop > SILENCE_DURATION"
    by (auto split: if_splits)
  with detectVoice_candidate [OF act assms(1)] sp show ?thesis by simp
qed

text \<open>
  Claim C4, as amended. Feed any sequence of samples to a detector that is not speaking
  and has no candidate start. If sample \<open>k\<close> is the first to emit an event and that
  event is \<open>SpeechStart\<close>, then its level is above the speech threshold (0.015) and it
  comes more than the minimum speech duration (100 ms) after the first sample above
  the speech threshold. Nothing is said about the samples in between: they do not have
  to stay above the threshold.
\<close>

theorem speech_start_after_min_duration:
  assumes "\<not> isSpeakingRef s" and "speechStartTimeRef s = None"
    and "k < length samples"
    and "\<forall>i<k. vad_events loop s samples ! i = None"
    and "vad_events loop s samples ! k = Some SpeechStart"
  shows "snd (samples ! k) > SPEECH_THRESHOLD \<and>
         (\<exists>j<k. snd (samples ! j) > SPEECH_THRESHOLD \<and>
                 (\<forall>i<j. snd (samples ! i) \<le> SPEECH_THRESHOLD) \<and>
                 fst (samples ! k) - fst (samples ! j) > MIN_SPEECH_DURATION)"
  using speech_start_gen [OF assms(3,1,4,5)] assms(2) by simp

text \<open>The theorem at the reference utterance: levels 0.02 at 10 ms and at 120 ms.\<close>

theorem speech_start_after_min_duration_witness:
  "\<not> isSpeakingRef listening_state \<and> speechStartTimeRef listening_state = None \<and>
   vad_events \<lparr>lastSpeechTime = 0, lastSilenceTime = 0, loop_session = initial_session\<rparr>
     listening_state [(10, 0.02), (120, 0.02)] = [None, Some SpeechStart] \<and>
   (120 :: int) - 10 > MIN_SPEECH_DURATION"
proof -
  let ?loop = "\<lparr>lastSpeechTime = 0, lastSilenceTime = 0, loop_session = initial_session\<rparr>"
  let ?samples = "[(10, 0.02), (120, 0.02)] :: (int \<times> real) list"
  have ev: "vad_events ?loop listening_state ?samples = [None, Some SpeechStart]"
    by (simp add: listening_state_def initial_session_def vad_edge_def component_defs Let_def
          cong: let_weak_cong)
  have h1: "\<not> isSpeakingRef listening_state"
    and h2: "speechStartTimeRef listening_state = None"
    by (simp_all add: listening_state_def)
  have h3: "1 < length ?samples" by simp
  have h4: "\<forall>i<1. vad_events ?loop listening_state ?samples ! i = None"
    by (subst ev) simp
  have h5: "vad_events ?loop listening_state ?samples ! 1 = Some SpeechStart"
    by (subst ev) simp
  from speech_start_after_min_duration [OF h1 h2 h3 h4 h5]
  have "(120 :: int) - 10 > MIN_SPEECH_DURATION" by simp
  with h1 h2 ev show ?thesis by simp
qed

text \<open>
  Claim C4 as stated fails. The level is above the threshold at 10 ms, falls into the
  dead zone at 50 ms (0.01) and below the silence threshold at 90 ms (0.001), and is
  above the threshold again at 150 ms: \<open>SpeechStart\<close> is emitted at 150 ms, because the
  candidate start of 10 ms is cleared only by a \<open>SpeechEnd\<close> or by \<open>cleanupAudio\<close>.
\<close>

theorem speech_start_despite_dips:
  "vad_events \<lparr>lastSpeechTime = 0, lastSilenceTime = 0, loop_session = initial_session\<rparr>
     listening_state [(10, 0.02), (50, 0.01), (90, 0.001), (150, 0.02)] =
   [None, None, None, Some SpeechStart]"
  by (simp add: listening_state_def initial_session_def vad_edge_def component_defs Let_def
        cong: let_weak_cong)

text \<open>
  Claim C5, as amended. Feed any sequence of samples to a detector that is not
  speaking. If sample \<open>k\<close> emits \<open>SpeechEnd\<close>, then its level is below the silence
  threshold (0.007) and it comes more than the silence hold (700 ms) after the last
  earlier sample above the speech threshold (0.015): \<open>lastSpeechTime\<close> is set by samples
  above the speech threshold only, so a sample in the dead zone does not postpone the end.
\<close>

theorem speech_end_after_silence_hold:
  assumes "\<not> isSpeakingRef s"
    and "k < length samples"
    and "vad_events loop s samples ! k = Some SpeechEnd"
  shows "snd (samples ! k) < SILENCE_THRESHOLD \<and>
         (\<exists>j<k. snd (samples ! j) > SPEECH_THRESHOLD \<and>
                 (\<forall>i. j < i \<and> i < k \<longrightarrow> snd (samples ! i) \<le> SPEECH_THRESHOLD) \<and>
                 fst (samples ! k) - fst (samples ! j) > SILENCE_DURATION)"
  using speech_end_gen [OF assms(2,3)] assms(1) by blast

text \<open>The theorem at a run that speaks at 10 and 120 ms and is silent from 500 ms on.\<close>

theorem speech_end_after_silence_hold_witness:
  "\<not> isSpeakingRef listening_state \<and>
   vad_events \<lparr>lastSpeechTime = 0, lastSilenceTime = 0, loop_session = initial_session\<rparr>
     listening_state [(10, 0.02), (120, 0.02), (500, 0.001), (821, 0.001)] =
     [None, Some SpeechStart, None, Some SpeechEnd] \<and>
   (821 :: int) - 120 > SILENCE_DURATION"
proof -
  let ?loop = "\<lparr>lastSpeechTime = 0, lastSilenceTime = 0, loop_session = initial_session\<rparr>"
  let ?samples = "[(10, 0.02), (120, 0.02), (500, 0.001), (821, 0.001)] :: (int \<times> real) list"
  have ev: "vad_events ?loop listening_state ?samples =
              [None, Some SpeechStart, None, Some SpeechEnd]"
    by (simp add: listening_state_def initial_session_def vad_edge_def component_defs Let_def
          cong: let_weak_cong)
  have h1: "\<not> isSpeakingRef listening_state"
    by (simp add: listening_state_def)
  have h2: "3 < length ?samples" by simp
  have h3: "vad_events ?loop listening_state ?samples ! 3 = Some SpeechEnd"
    by (subst ev) simp
  from speech_end_after_silence_hold [OF h1 h2 h3]
  obtain j where j: "j < 3" "snd (?samples ! j) > SPEECH_THRESHOLD"
    "fst (?samples ! 3) - fst (?samples ! j) > SILENCE_DURATION"
    by blast
  from j(1) have "j = 0 \<or> j = 1 \<or> j = 2" by auto
  with j(2,3) have "(821 :: int) - 120 > SILENCE_DURATION"
    by (auto simp: SPEECH_THRESHOLD_def SILENCE_DURATION_def)
  with h1 ev show ?thesis by simp
qed

text \<open>
  Claim C5 as stated fails. The last sample above the speech threshold is at 120 ms; the
  sample at 700 ms has level 0.01, above the silence threshold; \<open>SpeechEnd\<close> is emitted
  at 821 ms, which is 121 ms after a sample above the silence threshold.
\<close>

theorem speech_end_soon_after_dead_zone_sample:
  "vad_events \<lparr>lastSpeechTime = 0, lastSilenceTime = 0, loop_session = initial_session\<rparr>
     listening_state [(10, 0.02), (120, 0.02), (700, 0.01), (821, 0.001)] =
   [None, Some SpeechStart, None, Some SpeechEnd]"
  by (simp add: listening_state_def initial_session_def vad_edge_def component_defs Let_def
        cong: let_weak_cong)

section \<open>Stopping the playback\<close>

lemma halt_element_twice:
  "ys[b := ((ys[b := el\<lparr>paused := True, currentTime := 0, onended := False\<rparr>]) ! b)
             \<lparr>paused := True, currentTime := 0, onended := False\<rparr>] =
   ys[b := el\<lparr>paused := True, currentTime := 0, onended := False\<rparr>]"
  by (cases "b < length ys") (simp_all add: list_update_beyond)

lemma stopAIAudio_fields:
  "currentAudioRef (stopAIAudio seen s) = None"
  "isSpeaking (stopAIAudio seen s) = False"
  "currentAudio (session (stopAIAudio seen s)) = None"
  by (simp_all add: stopAIAudio_def halt_audio_def emit_def Let_def split: option.splits)

lemma stopAIAudio_audios:
  "audios (stopAIAudio seen s) =
     (let halt = (\<lambda>xs a. xs[a := (xs ! a)\<lparr>paused := True, currentTime := 0, onended := False\<rparr>]);
          xs1 = (case currentAudioRef s of None \<Rightarrow> audios s | Some a \<Rightarrow> halt (audios s) a)
      in case currentAudio seen of None \<Rightarrow> xs1 | Some b \<Rightarrow> halt xs1 b)"
  by (simp add: stopAIAudio_def halt_audio_def emit_def Let_def split: option.splits)

lemma stopAIAudio_again:
  "(stopAIAudio seen (stopAIAudio seen s))\<lparr>effects := es\<rparr> = (stopAIAudio seen s)\<lparr>effects := es\<rparr>"
proof (cases "currentAudio seen")
  case None
  then show ?thesis
    by (cases "currentAudioRef s")
       (simp_all add: stopAIAudio_def halt_audio_def emit_def Let_def)
next
  case (Some b)
  show ?thesis
  proof (cases "currentAudioRef s")
    case None
    with Some show ?thesis
      by (simp add: stopAIAudio_def halt_audio_def emit_def Let_def halt_element_twice)
  next
    case (Some a)
    with \<open>currentAudio seen = Some b\<close> show ?thesis
      by (cases "b < length (audios s)")
         (simp_all add: stopAIAudio_def halt_audio_def emit_def Let_def list_update_beyond)
  qed
qed

text \<open>
  Claim C7. \<open>stopAIAudio\<close> is idempotent. After one call the playback handle
  (\<open>currentAudioRef\<close>), the \<open>isSpeaking\<close> flag and \<open>session.currentAudio\<close> are the same
  whatever closure makes the second call; a second call from the same closure leaves the
  whole state as it is, the log of effects apart. When nothing is playing (no handle, no
  audio in the session seen or current, \<open>isSpeaking\<close> off) a call only writes its log
  line. \<open>stopAIAudio\<close> has no error result: the element operations sit inside
  \<open>try ... catch\<close> and the rest are assignments and state setters.
\<close>

theorem stopAIAudio_idempotent:
  "currentAudioRef (stopAIAudio seen' (stopAIAudio seen s)) = currentAudioRef (stopAIAudio seen s) \<and>
   isSpeaking (stopAIAudio seen' (stopAIAudio seen s)) = isSpeaking (stopAIAudio seen s) \<and>
   currentAudio (session (stopAIAudio seen' (stopAIAudio seen s))) =
     currentAudio (session (stopAIAudio seen s)) \<and>
   (stopAIAudio seen (stopAIAudio seen s))\<lparr>effects := []\<rparr> = (stopAIAudio seen s)\<lparr>effects := []\<rparr> \<and>
   (currentAudioRef s = None \<and> currentAudio seen = None \<and> \<not> isSpeaking s \<and>
    currentAudio (session s) = None \<longrightarrow>
      stopAIAudio seen s = s\<lparr>effects := effects s @ [Console ''[Audio] Interrupting AI speech'']\<rparr>)"
proof (intro conjI impI)
  assume idle: "currentAudioRef s = None \<and> currentAudio seen = None \<and> \<not> isSpeaking s \<and>
    currentAudio (session s) = None"
  then have "(session s)\<lparr>currentAudio := None\<rparr> = session s" by simp
  with idle show "stopAIAudio seen s =
      s\<lparr>effects := effects s @ [Console ''[Audio] Interrupting AI speech'']\<rparr>"
    by (simp add: stopAIAudio_def emit_def Let_def)
qed (simp_all add: stopAIAudio_fields stopAIAudio_again)

text \<open>
  The theorem at the initial state (nothing playing) and at the reference state in which
  the reply is playing.
\<close>

theorem stopAIAudio_idempotent_witness:
  "currentAudioRef initial_state = None \<and> currentAudio initial_session = None \<and>
   \<not> isSpeaking initial_state \<and> currentAudio (session initial_state) = None \<and>
   stopAIAudio initial_session initial_state =
     initial_state\<lparr>effects := effects initial_state @ [Console ''[Audio] Interrupting AI speech'']\<rparr> \<and>
   paused (audios (stopAIAudio initial_session ai_speaking_state) ! 0) \<and>
   (stopAIAudio initial_session (stopAIAudio initial_session ai_speaking_state))\<lparr>effects := []\<rparr> =
     (stopAIAudio initial_session ai_speaking_state)\<lparr>effects := []\<rparr>"
proof -
  have h: "currentAudioRef initial_state = None \<and> currentAudio initial_session = None \<and>
     \<not> isSpeaking initial_state \<and> currentAudio (session initial_state) = None"
    by (simp add: initial_state_def initial_session_def)
  have p: "paused (audios (stopAIAudio initial_session ai_speaking_state) ! 0)"
    by (simp add: stopAIAudio_audios ai_speaking_state_def initial_session_def)
  from stopAIAudio_idempotent [of initial_session initial_session initial_state] h p
  show ?thesis
    using stopAIAudio_idempotent [of initial_session initial_session ai_speaking_state]
    by blast
qed

section \<open>Barge-in\<close>

text \<open>What the calls made by \<open>detectVoice\<close> change and what they leave alone.\<close>

lemma statusLabel_AI_Speaking:
  "statusLabel s = ''AI Speaking'' \<longleftrightarrow> isActive (session s) \<and> \<not> isProcessing s \<and> isSpeaking s"
  by (simp add: statusLabel_def)

lemma statusLabel_You_Speaking:
  "statusLabel s = ''You Speaking'' \<longleftrightarrow>
     isActive (session s) \<and> \<not> isProcessing s \<and> \<not> isSpeaking s \<and> isUserSpeaking s"
  by (simp add: statusLabel_def)

lemma stopAIAudio_frame:
  "mediaStreamRef (stopAIAudio seen s) = mediaStreamRef s"
  "mediaRecorderRef (stopAIAudio seen s) = mediaRecorderRef s"
  "mediaRecorders (stopAIAudio seen s) = mediaRecorders s"
  "isProcessing (stopAIAudio seen s) = isProcessing s"
  "isUserSpeaking (stopAIAudio seen s) = isUserSpeaking s"
  "isActive (session (stopAIAudio seen s)) = isActive (session s)"
  "pending (stopAIAudio seen s) = pending s"
  "sessionIdRef (stopAIAudio seen s) = sessionIdRef s"
  by (simp_all add: stopAIAudio_def halt_audio_def emit_def Let_def split: option.splits)

lemma stopAIAudio_effects:
  "effects (stopAIAudio seen s) =
     effects s @ [Console ''[Audio] Interrupting AI speech''] @
     (case currentAudioRef s of None \<Rightarrow> [] | Some a \<Rightarrow> [AudioPause a]) @
     (case currentAudio seen of None \<Rightarrow> [] | Some b \<Rightarrow> [AudioPause b])"
  by (simp add: stopAIAudio_def halt_audio_def emit_def Let_def split: option.splits)

lemma stopAIAudio_recorder_state:
  "recorder_state (stopAIAudio seen s) = recorder_state s"
  by (simp add: recorder_state_def stopAIAudio_frame split: option.splits)

lemma startRecording_opens:
  assumes "mediaStreamRef s \<noteq> None" and "recorder_state s \<noteq> Some Recording"
  shows "effects (startRecording seen s) =
           effects s @ [Console ''[VAD] Starting recording'', RecorderStart (length (mediaRecorders s))]"
    and "mediaRecorderRef (startRecording seen s) = Some (length (mediaRecorders s))"
    and "recorder_state (startRecording seen s) = Some Recording"
    and "isUserSpeaking (startRecording seen s)"
    and "mediaRecorders (startRecording seen s) =
           mediaRecorders s @ [\<lparr>rec_state = Recording, rec_stream = the (mediaStreamRef s),
                                  stop_queued = False, handler_session = seen\<rparr>]"
  using assms
  by (auto simp: startRecording_def emit_def Let_def recorder_state_def)

lemma startRecording_frame:
  "session (startRecording seen s) = session s"
  "isProcessing (startRecording seen s) = isProcessing s"
  "isSpeaking (startRecording seen s) = isSpeaking s"
  "audios (startRecording seen s) = audios s"
  "currentAudioRef (startRecording seen s) = currentAudioRef s"
  "pending (startRecording seen s) = pending s"
  "mediaStreamRef (startRecording seen s) = mediaStreamRef s"
  "sessionIdRef (startRecording seen s) = sessionIdRef s"
  by (simp_all add: startRecording_def emit_def Let_def)

lemma requestAnimationFrame_frame:
  "effects (requestAnimationFrame loop s) = effects s"
  "session (requestAnimationFrame loop s) = session s"
  "isProcessing (requestAnimationFrame loop s) = isProcessing s"
  "isSpeaking (requestAnimationFrame loop s) = isSpeaking s"
  "isUserSpeaking (requestAnimationFrame loop s) = isUserSpeaking s"
  "audios (requestAnimationFrame loop s) = audios s"
  "currentAudioRef (requestAnimationFrame loop s) = currentAudioRef s"
  "mediaRecorderRef (requestAnimationFrame loop s) = mediaRecorderRef s"
  "mediaRecorders (requestAnimationFrame loop s) = mediaRecorders s"
  "mediaStreamRef (requestAnimationFrame loop s) = mediaStreamRef s"
  "pending (requestAnimationFrame loop s) = pending s @ [Some (AnimationFrame loop)]"
  by (simp_all add: requestAnimationFrame_def suspend_def)

lemma requestAnimationFrame_recorder_state:
  "recorder_state (requestAnimationFrame loop s) = recorder_state s"
  by (simp add: recorder_state_def requestAnimationFrame_frame split: option.splits)

text \<open>The branch of \<open>detectVoice\<close> that confirms speech, as a sequence of calls.\<close>

lemma detectVoice_speech_start:
  assumes "sessionActiveRef s" and "\<not> isSpeakingRef s" and "speechStartTimeRef s = Some c"
    and "now - c > MIN_SPEECH_DURATION" and "rms > SPEECH_THRESHOLD"
  shows "detectVoice loop now rms s =
           (loop\<lparr>lastSpeechTime := now\<rparr>,
            requestAnimationFrame (loop\<lparr>lastSpeechTime := now\<rparr>)
              (startRecording (loop_session loop)
                (stopAIAudio (loop_session loop)
                  ((emit (Console ''[VAD] Speech detected, starting recording'')
                     (if now div 500 \<noteq> lastSilenceTime loop div 500
                      then emit (Console ''[VAD] RMS'') (s\<lparr>audioLevel := rms\<rparr>)
                      else s\<lparr>audioLevel := rms\<rparr>))\<lparr>isSpeakingRef := True\<rparr>))))"
  using assms by (simp add: detectVoice_def Let_def emit_def)

text \<open>
  Claim C6. Let the state be \<open>AI Speaking\<close>: the session is active, no request is being
  processed, the audio element held by \<open>currentAudioRef\<close> is playing, the capture stream is
  there and no recorder is recording. When \<open>detectVoice\<close> confirms speech, the effects it
  performs are, in this order: the log line of \<open>stopAIAudio\<close> (once), the pause of the
  playing element (and of the element of the session seen by the closure, if any), then
  the log line of \<open>startRecording\<close> and the start of a new recorder. Afterwards the
  element is paused, the handle is empty, the new recorder is recording, and the state is
  \<open>You Speaking\<close>.
\<close>

theorem barge_in:
  assumes "sessionActiveRef s"
    and "statusLabel s = ''AI Speaking''"
    and "currentAudioRef s = Some a" and "playing s a"
    and "mediaStreamRef s = Some m"
    and "recorder_state s \<noteq> Some Recording"
    and "\<not> isSpeakingRef s" and "speechStartTimeRef s = Some c"
    and "now - c > MIN_SPEECH_DURATION" and "rms > SPEECH_THRESHOLD"
    and "detectVoice loop now rms s = (loop', s')"
  shows "new_effects s s' =
           (if now div 500 \<noteq> lastSilenceTime loop div 500 then [Console ''[VAD] RMS''] else []) @
           [Console ''[VAD] Speech detected, starting recording'',
            Console ''[Audio] Interrupting AI speech'', AudioPause a] @
           (case currentAudio (loop_session loop) of None \<Rightarrow> [] | Some b \<Rightarrow> [AudioPause b]) @
           [Console ''[VAD] Starting recording'', RecorderStart (length (mediaRecorders s))]
         \<and> count_list (new_effects s s') (Console ''[Audio] Interrupting AI speech'') = 1
         \<and> paused (audios s' ! a) \<and> currentAudioRef s' = None \<and> \<not> isSpeaking s'
         \<and> mediaRecorderRef s' = Some (length (mediaRecorders s))
         \<and> recorder_state s' = Some Recording
         \<and> vad_edge (isSpeakingRef s) (isSpeakingRef s') = Some SpeechStart
         \<and> statusLabel s' = ''You Speaking''"
proof -
  let ?seen = "loop_session loop"
  define s0 where "s0 = (emit (Console ''[VAD] Speech detected, starting recording'')
                     (if now div 500 \<noteq> lastSilenceTime loop div 500
                      then emit (Console ''[VAD] RMS'') (s\<lparr>audioLevel := rms\<rparr>)
                      else s\<lparr>audioLevel := rms\<rparr>))\<lparr>isSpeakingRef := True\<rparr>"
  define s1 where "s1 = stopAIAudio ?seen s0"
  define s2 where "s2 = startRecording ?seen s1"
  from assms(2) have st: "isActive (session s)" "\<not> isProcessing s" "isSpeaking s"
    by (simp_all add: statusLabel_AI_Speaking)
  from assms(4) have a: "a < length (audios s)" by (simp add: playing_def)
  have s': "s' = requestAnimationFrame (loop\<lparr>lastSpeechTime := now\<rparr>) s2"
    using detectVoice_speech_start [OF assms(1,7,8,9,10), of loop] assms(11)
    by (simp add: s0_def s1_def s2_def)
  have s0: "effects s0 = effects s @
              (if now div 500 \<noteq> lastSilenceTime loop div 500 then [Console ''[VAD] RMS''] else []) @
              [Console ''[VAD] Speech detected, starting recording'']"
    "currentAudioRef s0 = Some a" "audios s0 = audios s" "mediaStreamRef s0 = Some m"
    "recorder_state s0 = recorder_state s" "mediaRecorders s0 = mediaRecorders s"
    "isActive (session s0)" "\<not> isProcessing s0" "isSpeakingRef s0"
    using assms(3,5) st
    by (simp_all add: s0_def emit_def recorder_state_def split: option.splits)
  have s1: "effects s1 = effects s0 @ [Console ''[Audio] Interrupting AI speech'', AudioPause a] @
              (case currentAudio ?seen of None \<Rightarrow> [] | Some b \<Rightarrow> [AudioPause b])"
    "currentAudioRef s1 = None" "\<not> isSpeaking s1" "mediaStreamRef s1 \<noteq> None"
    "recorder_state s1 \<noteq> Some Recording" "mediaRecorders s1 = mediaRecorders s"
    "isActive (session s1)" "\<not> isProcessing s1" "isSpeakingRef s1"
    using s0 assms(6)
    by (simp_all add: s1_def stopAIAudio_effects stopAIAudio_fields stopAIAudio_frame
          stopAIAudio_recorder_state)
  have pa: "paused (audios s1 ! a)"
    using a s0(2,3)
    by (cases "currentAudio ?seen")
       (auto simp: s1_def stopAIAudio_audios Let_def nth_list_update)
  note open_rec = startRecording_opens [OF s1(4,5), of ?seen, folded s2_def]
  have s2: "effects s2 = effects s1 @
              [Console ''[VAD] Starting recording'', RecorderStart (length (mediaRecorders s))]"
    "mediaRecorderRef s2 = Some (length (mediaRecorders s))"
    "recorder_state s2 = Some Recording" "isUserSpeaking s2"
    "currentAudioRef s2 = None" "\<not> isSpeaking s2" "paused (audios s2 ! a)"
    "isActive (session s2)" "\<not> isProcessing s2" "isSpeakingRef s2"
    using open_rec s1 pa
    by (simp_all add: s2_def startRecording_frame)
  have eff: "new_effects s s' =
           (if now div 500 \<noteq> lastSilenceTime loop div 500 then [Console ''[VAD] RMS''] else []) @
           [Console ''[VAD] Speech detected, starting recording'',
            Console ''[Audio] Interrupting AI speech'', AudioPause a] @
           (case currentAudio (loop_session loop) of None \<Rightarrow> [] | Some b \<Rightarrow> [AudioPause b]) @
           [Console ''[VAD] Starting recording'', RecorderStart (length (mediaRecorders s))]"
    by (simp add: new_effects_def s' requestAnimationFrame_frame s2(1) s1(1) s0(1))
  have once: "count_list (new_effects s s') (Console ''[Audio] Interrupting AI speech'') = 1"
    unfolding eff by (simp split: option.splits)
  have rest: "paused (audios s' ! a)" "currentAudioRef s' = None" "\<not> isSpeaking s'"
    "mediaRecorderRef s' = Some (length (mediaRecorders s))"
    "recorder_state s' = Some Recording"
    "vad_edge (isSpeakingRef s) (isSpeakingRef s') = Some SpeechStart"
    "statusLabel s' = ''You Speaking''"
    using s2 assms(7)
    by (simp_all add: s' requestAnimationFrame_frame requestAnimationFrame_recorder_state
          vad_edge_iff statusLabel_You_Speaking)
  from eff once rest show ?thesis by simp
qed

text \<open>The theorem at the reference state in which the reply ``one'' is playing.\<close>

theorem barge_in_witness:
  "sessionActiveRef ai_speaking_state \<and> statusLabel ai_speaking_state = ''AI Speaking'' \<and>
   currentAudioRef ai_speaking_state = Some 0 \<and> playing ai_speaking_state 0 \<and>
   mediaStreamRef ai_speaking_state = Some 0 \<and>
   recorder_state ai_speaking_state = Some Inactive \<and>
   \<not> isSpeakingRef ai_speaking_state \<and> speechStartTimeRef ai_speaking_state = Some 910 \<and>
   new_effects ai_speaking_state
     (snd (detectVoice \<lparr>lastSpeechTime = 910, lastSilenceTime = 900, loop_session = initial_session\<rparr>
             1020 0.02 ai_speaking_state)) =
     [Console ''[VAD] RMS'', Console ''[VAD] Speech detected, starting recording'',
      Console ''[Audio] Interrupting AI speech'', AudioPause 0,
      Console ''[VAD] Starting recording'', RecorderStart 1] \<and>
   statusLabel
     (snd (detectVoice \<lparr>lastSpeechTime = 910, lastSilenceTime = 900, loop_session = initial_session\<rparr>
             1020 0.02 ai_speaking_state)) = ''You Speaking''"
proof -
  let ?loop = "\<lparr>lastSpeechTime = 910, lastSilenceTime = 900, loop_session = initial_session\<rparr>"
  obtain loop' s' where dv: "detectVoice ?loop 1020 0.02 ai_speaking_state = (loop', s')"
    by (cases "detectVoice ?loop 1020 0.02 ai_speaking_state")
  have h: "sessionActiveRef ai_speaking_state" "statusLabel ai_speaking_state = ''AI Speaking''"
    "currentAudioRef ai_speaking_state = Some 0" "playing ai_speaking_state 0"
    "mediaStreamRef ai_speaking_state = Some 0"
    "recorder_state ai_speaking_state = Some Inactive"
    "\<not> isSpeakingRef ai_speaking_state" "speechStartTimeRef ai_speaking_state = Some 910"
    by (simp_all add: ai_speaking_state_def statusLabel_def playing_def recorder_state_def)
  have h6: "recorder_state ai_speaking_state \<noteq> Some Recording"
    by (simp add: h(6))
  have t: "(1020 :: int) - 910 > MIN_SPEECH_DURATION" "(0.02 :: real) > SPEECH_THRESHOLD"
    by (simp_all add: MIN_SPEECH_DURATION_def SPEECH_THRESHOLD_def)
  have n: "length (mediaRecorders ai_speaking_state) = 1"
    by (simp add: ai_speaking_state_def)
  have e: "snd (detectVoice ?loop 1020 0.02 ai_speaking_state) = s'"
    by (simp only: dv snd_conv)
  have r: "lastSilenceTime ?loop = 900" "currentAudio (loop_session ?loop) = None"
    by (simp_all add: initial_session_def)
  from barge_in [OF h(1,2,3,4,5) h6 h(7,8) t dv]
  have "new_effects ai_speaking_state s' =
     [Console ''[VAD] RMS'', Console ''[VAD] Speech detected, starting recording'',
      Console ''[Audio] Interrupting AI speech'', AudioPause 0,
      Console ''[VAD] Starting recording'', RecorderStart 1]"
    and "statusLabel s' = ''You Speaking''"
    by (simp_all only: r n) simp_all
  with h show ?thesis
    unfolding e by simp
qed

section \<open>Failures while a session starts\<close>

lemma start_catch_frame:
  "error (start_catch e s) = Some (message e)"
  "sessionIdRef (start_catch e s) = sessionIdRef s"
  "sessionActiveRef (start_catch e s) = sessionActiveRef s"
  "session (start_catch e s) = session s"
  "pending (start_catch e s) = pending s"
  "mediaStreamRef (start_catch e s) = mediaStreamRef s"
  "mediaStreams (start_catch e s) = mediaStreams s"
  "analyserRef (start_catch e s) = analyserRef s"
  "statusLabel (start_catch e s) = statusLabel s"
  by (simp_all add: start_catch_def emit_def statusLabel_def)

text \<open>
  Claim C8, as amended. If the start request fails (it is rejected or its status is not
  OK), the error is recorded and the session id, the session-active flag, the session
  record and the turn state are left as they were: the session does not enter
  \<open>Listening\<close>. If the capture device is refused after the start request has succeeded,
  the error is recorded and no stream, analyser or detector loop is set up, but the
  session id, the session-active flag and the session record set before
  \<open>initializeAudio\<close> stay set: nothing is unwound, and the turn state stays what the
  successful start request made it. If the audio pipeline raises after the device was
  acquired, the same holds and the acquired stream stays referenced.
\<close>

theorem start_failure:
  "(r = Rejected e \<or> r = NotOk \<longrightarrow>
      error (startConversation_resume seen r s) \<noteq> None \<and>
      sessionIdRef (startConversation_resume seen r s) = sessionIdRef s \<and>
      sessionActiveRef (startConversation_resume seen r s) = sessionActiveRef s \<and>
      session (startConversation_resume seen r s) = session s \<and>
      pending (startConversation_resume seen r s) = pending s \<and>
      mediaStreamRef (startConversation_resume seen r s) = mediaStreamRef s \<and>
      statusLabel (startConversation_resume seen r s) = statusLabel s) \<and>
   error (startConversation_media seen (MediaDenied e) s) = Some (message e) \<and>
   sessionIdRef (startConversation_media seen (MediaDenied e) s) = sessionIdRef s \<and>
   sessionActiveRef (startConversation_media seen (MediaDenied e) s) = sessionActiveRef s \<and>
   session (startConversation_media seen (MediaDenied e) s) = session s \<and>
   pending (startConversation_media seen (MediaDenied e) s) = pending s \<and>
   mediaStreamRef (startConversation_media seen (MediaDenied e) s) = mediaStreamRef s \<and>
   analyserRef (startConversation_media seen (MediaDenied e) s) = analyserRef s \<and>
   statusLabel (startConversation_media seen (MediaDenied e) s) = statusLabel s \<and>
   error (startConversation_media seen (PipelineFailed e) s) = Some (message e) \<and>
   sessionIdRef (startConversation_media seen (PipelineFailed e) s) = sessionIdRef s \<and>
   sessionActiveRef (startConversation_media seen (PipelineFailed e) s) = sessionActiveRef s \<and>
   session (startConversation_media seen (PipelineFailed e) s) = session s \<and>
   pending (startConversation_media seen (PipelineFailed e) s) = pending s \<and>
   mediaStreamRef (startConversation_media seen (PipelineFailed e) s) =
     Some (length (mediaStreams s)) \<and>
   mediaStreams (startConversation_media seen (PipelineFailed e) s) = mediaStreams s @ [True] \<and>
   statusLabel (startConversation_media seen (PipelineFailed e) s) = statusLabel s"
proof -
  have "startConversation_media seen (PipelineFailed e) s =
          start_catch e (emit (Console ''[Audio] Failed to initialize'')
            (s\<lparr>mediaStreams := mediaStreams s @ [True],
               mediaStreamRef := Some (length (mediaStreams s))\<rparr>))"
    by (simp add: startConversation_media_def initializeAudio_resume_def Let_def)
  moreover have "statusLabel (emit (Console ''[Audio] Failed to initialize'')
            (s\<lparr>mediaStreams := mediaStreams s @ [True],
               mediaStreamRef := Some (length (mediaStreams s))\<rparr>)) = statusLabel s"
    by (simp add: emit_def statusLabel_def)
  moreover
  have "startConversation_media seen (MediaDenied e) s =
          start_catch e (emit (Console ''[Audio] Failed to initialize'') s)"
    by (simp add: startConversation_media_def initializeAudio_resume_def)
  moreover have "statusLabel (emit (Console ''[Audio] Failed to initialize'') s) = statusLabel s"
    by (simp add: emit_def statusLabel_def)
  ultimately show ?thesis
    by (auto simp: startConversation_resume_def start_catch_frame emit_def)
qed

text \<open>The theorem at the initial state, for a start request that is not OK.\<close>

theorem start_failure_witness:
  "error (startConversation_resume initial_session NotOk initial_state) =
     Some ''Failed to start session'' \<and>
   sessionIdRef (startConversation_resume initial_session NotOk initial_state) = None \<and>
   statusLabel (startConversation_resume initial_session NotOk initial_state) = ''Ready'' \<and>
   error (startConversation_media initial_session (MediaDenied (Error ''Permission denied''))
            initial_state) = Some ''Permission denied''"
proof -
  have "error (startConversation_resume initial_session NotOk initial_state) =
          Some ''Failed to start session''"
    by (simp add: startConversation_resume_def start_catch_def emit_def message_def)
  moreover have "sessionIdRef initial_state = None" "statusLabel initial_state = ''Ready''"
    by (simp_all add: initial_state_def initial_session_def statusLabel_def)
  moreover have "message (Error ''Permission denied'') = ''Permission denied''"
    by (simp add: message_def)
  ultimately show ?thesis
    using start_failure [of NotOk "Error ''Permission denied''" initial_session initial_state]
    by simp
qed

text \<open>
  Claim C8 as stated fails. The start request succeeds with session id \<open>s1\<close> and the
  microphone is refused: the session id and the session-active flag are left set and the
  turn state shown is \<open>Listening\<close>.
\<close>

theorem device_failure_leaves_session_active:
  "map_option sessionIdRef
     (run [ClickStart, StartResponse 0 (Body (Some ''s1'')),
           UserMedia 1 (MediaDenied (Error ''Permission denied''))] initial_state) =
     Some (Some ''s1'') \<and>
   map_option sessionActiveRef
     (run [ClickStart, StartResponse 0 (Body (Some ''s1'')),
           UserMedia 1 (MediaDenied (Error ''Permission denied''))] initial_state) = Some True \<and>
   map_option statusLabel
     (run [ClickStart, StartResponse 0 (Body (Some ''s1'')),
           UserMedia 1 (MediaDenied (Error ''Permission denied''))] initial_state) =
     Some ''Listening''"
  by (simp add: initial_state_def initial_session_def component_defs statusLabel_def Let_def
        cong: let_weak_cong)

section \<open>Answers of the dialogue service\<close>

text \<open>\<open>stopAIAudio\<close> and \<open>playAIAudio\<close> as updates of the state.\<close>

lemma length_halted [simp]: "length (halted xs x) = length xs"
  by (simp add: halted_def split: option.splits)

lemma stopAIAudio_eq:
  "stopAIAudio seen s =
     s\<lparr>currentAudioRef := None,
       audios := halted (halted (audios s) (currentAudioRef s)) (currentAudio seen),
       isSpeaking := False,
       session := (session s)\<lparr>currentAudio := None\<rparr>,
       effects := effects s @ [Console ''[Audio] Interrupting AI speech''] @
                  pauses (currentAudioRef s) @ pauses (currentAudio seen)\<rparr>"
  by (simp add: stopAIAudio_def halt_audio_def emit_def Let_def halted_def pauses_def
        split: option.splits)






section \<open>Ending the session while recording\<close>

text \<open>What each statement of \<open>cleanupAudio\<close> leaves alone.\<close>

lemma requests_append: "requests (xs @ ys) = requests xs @ requests ys"
  by (induction xs rule: requests.induct) simp_all

lemma cancel_scheduled_frame_keeps:
  "session (cancel_scheduled_frame s) = session s"
  "conversationHistory (cancel_scheduled_frame s) = conversationHistory s"
  "isProcessing (cancel_scheduled_frame s) = isProcessing s"
  "isSpeaking (cancel_scheduled_frame s) = isSpeaking s"
  "isUserSpeaking (cancel_scheduled_frame s) = isUserSpeaking s"
  "sessionIdRef (cancel_scheduled_frame s) = sessionIdRef s"
  "sessionActiveRef (cancel_scheduled_frame s) = sessionActiveRef s"
  "audioChunksRef (cancel_scheduled_frame s) = audioChunksRef s"
  "mediaRecorderRef (cancel_scheduled_frame s) = mediaRecorderRef s"
  "mediaRecorders (cancel_scheduled_frame s) = mediaRecorders s"
  "mediaStreamRef (cancel_scheduled_frame s) = mediaStreamRef s"
  "mediaStreams (cancel_scheduled_frame s) = mediaStreams s"
  "currentAudioRef (cancel_scheduled_frame s) = currentAudioRef s"
  "audios (cancel_scheduled_frame s) = audios s"
  by (simp_all add: cancel_scheduled_frame_def emit_def split: option.splits)

lemma stop_active_recorder_keeps:
  "session (stop_active_recorder s) = session s"
  "conversationHistory (stop_active_recorder s) = conversationHistory s"
  "isProcessing (stop_active_recorder s) = isProcessing s"
  "isSpeaking (stop_active_recorder s) = isSpeaking s"
  "isUserSpeaking (stop_active_recorder s) = isUserSpeaking s"
  "sessionIdRef (stop_active_recorder s) = sessionIdRef s"
  "sessionActiveRef (stop_active_recorder s) = sessionActiveRef s"
  "audioChunksRef (stop_active_recorder s) = audioChunksRef s"
  "mediaRecorderRef (stop_active_recorder s) = mediaRecorderRef s"
  "mediaStreamRef (stop_active_recorder s) = mediaStreamRef s"
  "mediaStreams (stop_active_recorder s) = mediaStreams s"
  "currentAudioRef (stop_active_recorder s) = currentAudioRef s"
  "audios (stop_active_recorder s) = audios s"
  "pending (stop_active_recorder s) = pending s"
  by (simp_all add: stop_active_recorder_def recorder_stop_def emit_def)

lemma release_stream_keeps:
  "session (release_stream s) = session s"
  "conversationHistory (release_stream s) = conversationHistory s"
  "isProcessing (release_stream s) = isProcessing s"
  "isSpeaking (release_stream s) = isSpeaking s"
  "isUserSpeaking (release_stream s) = isUserSpeaking s"
  "sessionIdRef (release_stream s) = sessionIdRef s"
  "sessionActiveRef (release_stream s) = sessionActiveRef s"
  "audioChunksRef (release_stream s) = audioChunksRef s"
  "mediaRecorderRef (release_stream s) = mediaRecorderRef s"
  "mediaRecorders (release_stream s) = mediaRecorders s"
  "currentAudioRef (release_stream s) = currentAudioRef s"
  "audios (release_stream s) = audios s"
  "pending (release_stream s) = pending s"
  by (simp_all add: release_stream_def emit_def split: option.splits)

lemma close_context_keeps:
  "session (close_context s) = session s"
  "conversationHistory (close_context s) = conversationHistory s"
  "isProcessing (close_context s) = isProcessing s"
  "isSpeaking (close_context s) = isSpeaking s"
  "isUserSpeaking (close_context s) = isUserSpeaking s"
  "sessionIdRef (close_context s) = sessionIdRef s"
  "sessionActiveRef (close_context s) = sessionActiveRef s"
  "audioChunksRef (close_context s) = audioChunksRef s"
  "mediaRecorderRef (close_context s) = mediaRecorderRef s"
  "mediaRecorders (close_context s) = mediaRecorders s"
  "mediaStreamRef (close_context s) = mediaStreamRef s"
  "mediaStreams (close_context s) = mediaStreams s"
  "currentAudioRef (close_context s) = currentAudioRef s"
  "audios (close_context s) = audios s"
  "pending (close_context s) = pending s"
  by (simp_all add: close_context_def emit_def split: option.splits)

lemma cleanup_steps_requests:
  "requests (effects (cancel_scheduled_frame s)) = requests (effects s)"
  "requests (effects (stop_active_recorder s)) = requests (effects s)"
  "requests (effects (release_stream s)) = requests (effects s)"
  "requests (effects (close_context s)) = requests (effects s)"
  by (simp_all add: cancel_scheduled_frame_def stop_active_recorder_def recorder_stop_def
        release_stream_def close_context_def emit_def requests_append split: option.splits)

lemma cleanup_steps_length:
  "length (pending (cancel_scheduled_frame s)) = length (pending s)"
  "length (mediaRecorders (stop_active_recorder s)) = length (mediaRecorders s)"
  by (simp_all add: cancel_scheduled_frame_def stop_active_recorder_def recorder_stop_def
        emit_def split: option.splits)

lemma stop_active_recorder_stops:
  "mediaRecorderRef s = Some r \<Longrightarrow> rec_state (mediaRecorders s ! r) = Recording \<Longrightarrow>
   mediaRecorders (stop_active_recorder s) =
     (mediaRecorders s)[r := (mediaRecorders s ! r)\<lparr>rec_state := Inactive, stop_queued := True\<rparr>]"
  by (simp add: stop_active_recorder_def recorder_state_def recorder_stop_def emit_def)

lemma release_stream_releases:
  "mediaStreamRef s = Some m \<Longrightarrow>
   mediaStreams (release_stream s) = (mediaStreams s)[m := False] \<and>
   mediaStreamRef (release_stream s) = None"
  by (simp add: release_stream_def emit_def)

lemma cleanupAudio_keeps:
  "session (cleanupAudio s) = session s"
  "conversationHistory (cleanupAudio s) = conversationHistory s"
  "isProcessing (cleanupAudio s) = isProcessing s"
  "isSpeaking (cleanupAudio s) = isSpeaking s"
  "isUserSpeaking (cleanupAudio s) = isUserSpeaking s"
  "sessionIdRef (cleanupAudio s) = sessionIdRef s"
  "sessionActiveRef (cleanupAudio s) = sessionActiveRef s"
  "audioChunksRef (cleanupAudio s) = audioChunksRef s"
  "mediaRecorderRef (cleanupAudio s) = mediaRecorderRef s"
  "currentAudioRef (cleanupAudio s) = currentAudioRef s"
  "audios (cleanupAudio s) = audios s"
  "length (pending (cleanupAudio s)) = length (pending s)"
  "length (mediaRecorders (cleanupAudio s)) = length (mediaRecorders s)"
  "requests (effects (cleanupAudio s)) = requests (effects s)"
  "\<not> isSpeakingRef (cleanupAudio s)"
  "speechStartTimeRef (cleanupAudio s) = None"
  by (simp_all add: cleanupAudio_def Let_def cancel_scheduled_frame_keeps
        stop_active_recorder_keeps release_stream_keeps close_context_keeps
        cleanup_steps_requests cleanup_steps_length emit_def requests_append)

lemma cleanupAudio_recording:
  assumes "mediaRecorderRef s = Some r" and "rec_state (mediaRecorders s ! r) = Recording"
    and "mediaStreamRef s = Some m"
  shows "mediaRecorders (cleanupAudio s) =
           (mediaRecorders s)[r := (mediaRecorders s ! r)\<lparr>rec_state := Inactive, stop_queued := True\<rparr>]"
    and "mediaStreams (cleanupAudio s) = (mediaStreams s)[m := False]"
    and "mediaStreamRef (cleanupAudio s) = None"
proof -
  let ?s2 = "cancel_scheduled_frame (emit (Console ''[Audio] Cleaning up'') s)"
  have r: "mediaRecorderRef ?s2 = Some r" "rec_state (mediaRecorders ?s2 ! r) = Recording"
    "mediaRecorders ?s2 = mediaRecorders s"
    using assms(1,2) by (simp_all add: cancel_scheduled_frame_keeps emit_def)
  have m: "mediaStreamRef (stop_active_recorder ?s2) = Some m"
    "mediaStreams (stop_active_recorder ?s2) = mediaStreams s"
    using assms(3)
    by (simp_all add: stop_active_recorder_keeps cancel_scheduled_frame_keeps emit_def)
  show "mediaRecorders (cleanupAudio s) =
           (mediaRecorders s)[r := (mediaRecorders s ! r)\<lparr>rec_state := Inactive, stop_queued := True\<rparr>]"
    using stop_active_recorder_stops [OF r(1,2)] r(3)
    by (simp add: cleanupAudio_def Let_def close_context_keeps release_stream_keeps)
  show "mediaStreams (cleanupAudio s) = (mediaStreams s)[m := False]"
    and "mediaStreamRef (cleanupAudio s) = None"
    using release_stream_releases [OF m(1)] m(2)
    by (simp_all add: cleanupAudio_def Let_def close_context_keeps)
qed


lemma blob_size_new_Blob:
  "blob_size (new_Blob (map blob_bytes (chunks @ [data])) t) =
     blob_size (new_Blob (map blob_bytes chunks) t) + blob_size data"
  by (simp add: blob_size_def new_Blob_def)

text \<open>
  Claim C2, as amended. Let the session be active with a session id, a recorder
  recording and a capture stream. Pressing the end button stops the recorder, stops the
  tracks of the stream, clears the stream ref and the session-active flag, and issues the
  end-session request. The recording is not discarded: when the events of the stopped
  recorder are delivered with non-empty data (the session id is cleared only when the end
  request completes), the clip is assembled and a submit-utterance request carrying it
  is issued. When the end request completes, the turn state is \<open>Ready\<close>, the idle state.
\<close>

theorem end_while_recording:
  assumes "isActive (session s)" and "sessionIdRef s = Some sid" and "sid \<noteq> []"
    and "mediaRecorderRef s = Some r" and "r < length (mediaRecorders s)"
    and "rec_state (mediaRecorders s ! r) = Recording"
    and "mediaStreamRef s = Some m" and "m < length (mediaStreams s)"
    and "0 < blob_size data"
  shows "\<exists>s1 s2 s3.
           step ClickEnd s = Some s1 \<and>
           rec_state (mediaRecorders s1 ! r) = Inactive \<and> open_recordings s1 = open_recordings s - 1 \<and>
           \<not> mediaStreams s1 ! m \<and> mediaStreamRef s1 = None \<and> \<not> sessionActiveRef s1 \<and>
           issued s1 = issued s @ [PostComplete sid] \<and>
           step (RecorderEvents r data) s1 = Some s2 \<and>
           issued s2 = issued s1 @
             [PostInteract sid (new_Blob (map blob_bytes (audioChunksRef s @ [data])) ''audio/webm'')] \<and>
           step (CompleteResponse (length (pending s)) (Body ())) s2 = Some s3 \<and>
           statusLabel s3 = ''Ready''"
proof -
  let ?seen = "session s"
  define a0 where "a0 = (emit (Console ''[Session] Ending conversation'') s)\<lparr>sessionActiveRef := False\<rparr>"
  define a1 where "a1 = cleanupAudio a0"
  define a2 where "a2 = stopAIAudio ?seen a1"
  define s1 where "s1 = suspend AwaitCompleteFetch (emit (Fetch (PostComplete sid)) a2)"
  have end_eq: "endConversation ?seen s = s1"
    using assms(2,3)
    by (simp add: endConversation_def truthy_def Let_def s1_def a2_def a1_def a0_def)
  have a0: "mediaRecorderRef a0 = Some r" "rec_state (mediaRecorders a0 ! r) = Recording"
    "mediaStreamRef a0 = Some m" "mediaRecorders a0 = mediaRecorders s"
    "mediaStreams a0 = mediaStreams s" "sessionIdRef a0 = Some sid"
    "audioChunksRef a0 = audioChunksRef s" "length (pending a0) = length (pending s)"
    "requests (effects a0) = requests (effects s)" "\<not> sessionActiveRef a0"
    using assms by (simp_all add: a0_def emit_def requests_append)
  note cr = cleanupAudio_recording [OF a0(1,2,3), folded a1_def]
  have a1: "mediaRecorders a1 =
              (mediaRecorders s)[r := (mediaRecorders s ! r)\<lparr>rec_state := Inactive, stop_queued := True\<rparr>]"
    "mediaStreams a1 = (mediaStreams s)[m := False]" "mediaStreamRef a1 = None"
    "sessionIdRef a1 = Some sid" "audioChunksRef a1 = audioChunksRef s"
    "length (pending a1) = length (pending s)"
    "requests (effects a1) = requests (effects s)" "\<not> sessionActiveRef a1"
    using cr a0 by (simp_all add: a1_def cleanupAudio_keeps)
  have pauses_req: "\<And>x. requests (pauses x) = []"
    by (simp add: pauses_def split: option.splits)
  have s1: "mediaRecorders s1 =
              (mediaRecorders s)[r := (mediaRecorders s ! r)\<lparr>rec_state := Inactive, stop_queued := True\<rparr>]"
    "mediaStreams s1 = (mediaStreams s)[m := False]" "mediaStreamRef s1 = None"
    "sessionIdRef s1 = Some sid" "audioChunksRef s1 = audioChunksRef s"
    "pending s1 = pending a1 @ [Some AwaitCompleteFetch]"
    "requests (effects s1) = requests (effects s) @ [PostComplete sid]"
    "\<not> sessionActiveRef s1"
    using a1
    by (simp_all add: s1_def a2_def stopAIAudio_eq suspend_def emit_def requests_append
          pauses_req)
  have open1: "open_recordings s1 = open_recordings s - 1"
  proof -
    let ?P = "\<lambda>x. rec_state x = Recording"
    let ?rs = "mediaRecorders s"
    have split: "?rs = take r ?rs @ (?rs ! r) # drop (Suc r) ?rs"
      using assms(5) by (simp add: id_take_nth_drop)
    have upd: "?rs[r := (?rs ! r)\<lparr>rec_state := Inactive, stop_queued := True\<rparr>] =
               take r ?rs @ ((?rs ! r)\<lparr>rec_state := Inactive, stop_queued := True\<rparr>) # drop (Suc r) ?rs"
      using assms(5) by (simp add: upd_conv_take_nth_drop)
    have "length (filter ?P ?rs) =
            length (filter ?P (take r ?rs)) + 1 + length (filter ?P (drop (Suc r) ?rs))"
      by (subst split) (simp add: assms(6))
    moreover have "length (filter ?P (?rs[r := (?rs ! r)\<lparr>rec_state := Inactive, stop_queued := True\<rparr>])) =
            length (filter ?P (take r ?rs)) + length (filter ?P (drop (Suc r) ?rs))"
      by (subst upd) simp
    ultimately show ?thesis
      by (simp add: open_recordings_def s1(1))
  qed
  define s2 where "s2 = recorder_events r data s1"
  let ?blob = "new_Blob (map blob_bytes (audioChunksRef s @ [data])) ''audio/webm''"
  have size: "0 < blob_size ?blob"
    using assms(9) by (simp add: blob_size_def new_Blob_def)
  have s2: "requests (effects s2) = requests (effects s1) @ [PostInteract sid ?blob]"
    "pending s2 = pending s1 @
       [Some (AwaitInteractFetch (handler_session (mediaRecorders s ! r)))]"
    using assms(5,9) size s1
    by (simp_all add: s2_def recorder_events_def sendAudioToBackend_def Let_def emit_def
          suspend_def truthy_def assms(3) requests_append)
  have step1: "step ClickEnd s = Some s1"
    using assms(1) end_eq by simp
  have step2: "step (RecorderEvents r data) s1 = Some s2"
    using assms(5) by (simp add: s1(1) s2_def)
  have pend: "length (pending s) < length (pending s2)"
    "pending s2 ! length (pending s) = Some AwaitCompleteFetch"
    using a1(6) by (simp_all add: s2(2) s1(6) nth_append)
  define s3 where "s3 = endConversation_resume (Body ())
                          (s2\<lparr>pending := (pending s2)[length (pending s) := None]\<rparr>)"
  have step3: "step (CompleteResponse (length (pending s)) (Body ())) s2 = Some s3"
    using pend by (simp add: resume_def s3_def)
  have ready: "statusLabel s3 = ''Ready''"
    by (simp add: s3_def endConversation_resume_def emit_def statusLabel_def)
  have facts: "rec_state (mediaRecorders s1 ! r) = Inactive" "\<not> mediaStreams s1 ! m"
    using assms(5,8) by (simp_all add: s1(1,2))
  from step1 step2 step3 ready facts open1 s1(3,7,8) s2(1)
  show ?thesis
    unfolding issued_def by blast
qed

text \<open>The theorem at the reference state in which the user is speaking.\<close>

theorem end_while_recording_witness:
  "isActive (session user_speaking_state) \<and> sessionIdRef user_speaking_state = Some ''s1'' \<and>
   mediaRecorderRef user_speaking_state = Some 0 \<and>
   rec_state (mediaRecorders user_speaking_state ! 0) = Recording \<and>
   mediaStreamRef user_speaking_state = Some 0 \<and> 0 < blob_size sample_clip \<and>
   run [ClickEnd, RecorderEvents 0 sample_clip, CompleteResponse 5 (Body ())]
     user_speaking_state = Some ended_state \<and>
   statusLabel ended_state = ''Ready''"
proof -
  have h: "isActive (session user_speaking_state)" "sessionIdRef user_speaking_state = Some ''s1''"
    "''s1'' \<noteq> []"
    "mediaRecorderRef user_speaking_state = Some 0" "0 < length (mediaRecorders user_speaking_state)"
    "rec_state (mediaRecorders user_speaking_state ! 0) = Recording"
    "mediaStreamRef user_speaking_state = Some 0" "0 < length (mediaStreams user_speaking_state)"
    "0 < blob_size sample_clip"
    by (simp_all add: user_speaking_state_def sample_clip_def blob_size_def)
  have n: "length (pending user_speaking_state) = 5"
    by (simp add: user_speaking_state_def)
  from end_while_recording [OF h] obtain s1 s2 s3 where
    st: "step ClickEnd user_speaking_state = Some s1"
      "step (RecorderEvents 0 sample_clip) s1 = Some s2"
      "step (CompleteResponse 5 (Body ())) s2 = Some s3"
      "statusLabel s3 = ''Ready''"
    unfolding n by blast
  then have "run [ClickEnd, RecorderEvents 0 sample_clip, CompleteResponse 5 (Body ())]
               user_speaking_state = Some s3"
    by simp
  with reach_ended have "s3 = ended_state" by simp
  with st(4) h reach_ended show ?thesis by simp
qed

text \<open>
  Claim C2 as stated fails. The end button is pressed while the recorder is recording
  and its events are delivered with the captured clip: the requests issued are the start
  request, the end-session request and a submit-utterance request carrying the clip.
\<close>

theorem end_while_recording_submits_audio:
  "map_option issued
     (run (session_trace @ utterance_trace @ [ClickEnd, RecorderEvents 0 sample_clip])
        initial_state) =
   Some [PostStart adult, PostComplete ''s1'', PostInteract ''s1'' sample_clip]"
proof -
  have "map_option issued (run [ClickEnd, RecorderEvents 0 sample_clip] user_speaking_state) =
          Some [PostStart adult, PostComplete ''s1'', PostInteract ''s1'' sample_clip]"
    by (simp add: sample_clip_def user_speaking_state_def component_defs issued_def Let_def
          cong: let_weak_cong)
  then show ?thesis
    unfolding run_append reach_listening reach_user_speaking option.case .
qed

section \<open>Speech while a request is in flight\<close>

lemma statusLabel_Processing:
  "statusLabel s = ''Processing'' \<longleftrightarrow> isActive (session s) \<and> isProcessing s"
  by (simp add: statusLabel_def)

lemma run_processing_playing_trace:
  "run processing_playing_trace initial_state = Some processing_playing_state"
proof -
  have "run [Frame 7 1020 0.02, InteractResponse 6 (sample_reply ''one''), PlaySettled 0 True,
             Frame 8 1800 0, RecorderEvents 1 sample_clip, Frame 9 1810 0.02] processing_state =
          Some processing_playing_state"
    apply (simp add: sample_clip_def sample_reply_def processing_state_def
             component_defs sample_audio Let_def cong: let_weak_cong)
    apply (simp add: processing_playing_state_def)
    done
  then show ?thesis
    unfolding processing_playing_trace_def run_append run_processing_trace option.case .
qed

lemma halted_paused:
  "a < length xs \<Longrightarrow> paused (halted (halted xs (Some a)) y ! a)"
  by (cases y) (simp_all add: halted_def nth_list_update)

text \<open>
  Claim C3, as amended. A \<open>SpeechStart\<close> while a submit-utterance request is in flight
  (turn state \<open>Processing\<close>) is not ignored: \<open>detectVoice\<close> does not look at the
  processing flag or at the pending requests. It stops the playback exactly as it does
  when listening (one call of \<open>stopAIAudio\<close>: the element held by the handle and the one
  of the session seen by the closure are paused, the handle and \<open>isSpeaking\<close> are
  cleared), and then, with a capture stream and no recorder recording, opens a new
  recorder. The request stays in flight and the turn state stays \<open>Processing\<close>. More than
  one submit-utterance request can therefore be in flight.
\<close>

theorem speech_start_while_processing:
  assumes "sessionActiveRef s" and "statusLabel s = ''Processing''"
    and "i < length (pending s)" and "pending s ! i = Some (AwaitInteractFetch seen)"
    and "mediaStreamRef s = Some m" and "recorder_state s \<noteq> Some Recording"
    and "\<not> isSpeakingRef s" and "speechStartTimeRef s = Some c"
    and "now - c > MIN_SPEECH_DURATION" and "rms > SPEECH_THRESHOLD"
    and "detectVoice loop now rms s = (loop', s')"
  shows "vad_edge (isSpeakingRef s) (isSpeakingRef s') = Some SpeechStart \<and>
         mediaRecorderRef s' = Some (length (mediaRecorders s)) \<and>
         recorder_state s' = Some Recording \<and>
         pending s' ! i = Some (AwaitInteractFetch seen) \<and>
         in_flight s' = in_flight s \<and>
         statusLabel s' = ''Processing'' \<and>
         currentAudioRef s' = None \<and> \<not> isSpeaking s' \<and>
         currentAudio (session s') = None \<and>
         audios s' = halted (halted (audios s) (currentAudioRef s)) (currentAudio (loop_session loop)) \<and>
         (\<forall>a. currentAudioRef s = Some a \<and> a < length (audios s) \<longrightarrow> paused (audios s' ! a)) \<and>
         new_effects s s' =
           (if now div 500 \<noteq> lastSilenceTime loop div 500 then [Console ''[VAD] RMS''] else []) @
           [Console ''[VAD] Speech detected, starting recording'',
            Console ''[Audio] Interrupting AI speech''] @
           pauses (currentAudioRef s) @ pauses (currentAudio (loop_session loop)) @
           [Console ''[VAD] Starting recording'', RecorderStart (length (mediaRecorders s))]"
proof -
  let ?seen = "loop_session loop"
  define s0 where "s0 = (emit (Console ''[VAD] Speech detected, starting recording'')
                     (if now div 500 \<noteq> lastSilenceTime loop div 500
                      then emit (Console ''[VAD] RMS'') (s\<lparr>audioLevel := rms\<rparr>)
                      else s\<lparr>audioLevel := rms\<rparr>))\<lparr>isSpeakingRef := True\<rparr>"
  define s1 where "s1 = stopAIAudio ?seen s0"
  define s2 where "s2 = startRecording ?seen s1"
  from assms(2) have st: "isActive (session s)" "isProcessing s"
    by (simp_all add: statusLabel_Processing)
  have s': "s' = requestAnimationFrame (loop\<lparr>lastSpeechTime := now\<rparr>) s2"
    using detectVoice_speech_start [OF assms(1,7,8,9,10), of loop] assms(11)
    by (simp add: s0_def s1_def s2_def)
  have s0: "mediaStreamRef s0 = Some m" "recorder_state s0 = recorder_state s"
    "mediaRecorders s0 = mediaRecorders s" "pending s0 = pending s"
    "isActive (session s0)" "isProcessing s0" "isSpeakingRef s0"
    "audios s0 = audios s" "currentAudioRef s0 = currentAudioRef s"
    "effects s0 = effects s @
       (if now div 500 \<noteq> lastSilenceTime loop div 500 then [Console ''[VAD] RMS''] else []) @
       [Console ''[VAD] Speech detected, starting recording'']"
    using assms(5) st
    by (simp_all add: s0_def emit_def recorder_state_def split: option.splits)
  have s1: "mediaStreamRef s1 \<noteq> None" "recorder_state s1 \<noteq> Some Recording"
    "mediaRecorders s1 = mediaRecorders s" "pending s1 = pending s"
    "isActive (session s1)" "isProcessing s1" "isSpeakingRef s1"
    using s0 assms(6)
    by (simp_all add: s1_def stopAIAudio_frame stopAIAudio_recorder_state)
  have p1: "currentAudioRef s1 = None" "\<not> isSpeaking s1" "currentAudio (session s1) = None"
    "audios s1 = halted (halted (audios s) (currentAudioRef s)) (currentAudio ?seen)"
    "effects s1 = effects s0 @ [Console ''[Audio] Interrupting AI speech''] @
                  pauses (currentAudioRef s) @ pauses (currentAudio ?seen)"
    using s0(8,9) by (simp_all add: s1_def stopAIAudio_eq)
  note open_rec = startRecording_opens [OF s1(1,2), of ?seen, folded s2_def]
  have s2: "mediaRecorderRef s2 = Some (length (mediaRecorders s))"
    "recorder_state s2 = Some Recording" "pending s2 = pending s"
    "isActive (session s2)" "isProcessing s2" "isSpeakingRef s2"
    using open_rec s1
    by (simp_all add: s2_def startRecording_frame)
  have p2: "currentAudioRef s2 = None" "\<not> isSpeaking s2" "currentAudio (session s2) = None"
    "audios s2 = halted (halted (audios s) (currentAudioRef s)) (currentAudio ?seen)"
    "effects s2 = effects s1 @
       [Console ''[VAD] Starting recording'', RecorderStart (length (mediaRecorders s))]"
    using p1 open_rec(1) s1(3)
    by (simp_all add: s2_def startRecording_frame)
  have flight: "in_flight s' = in_flight s"
    by (simp add: in_flight_def s' requestAnimationFrame_frame s2(3))
  have pend: "pending s' ! i = Some (AwaitInteractFetch seen)"
    using assms(3,4) by (simp add: s' requestAnimationFrame_frame s2(3) nth_append)
  have rec: "vad_edge (isSpeakingRef s) (isSpeakingRef s') = Some SpeechStart"
    "mediaRecorderRef s' = Some (length (mediaRecorders s))"
    "recorder_state s' = Some Recording" "statusLabel s' = ''Processing''"
    using s2 assms(7)
    by (simp_all add: s' requestAnimationFrame_frame requestAnimationFrame_recorder_state
          vad_edge_iff statusLabel_Processing)
  have play: "currentAudioRef s' = None" "\<not> isSpeaking s'" "currentAudio (session s') = None"
    "audios s' = halted (halted (audios s) (currentAudioRef s)) (currentAudio ?seen)"
    using p2 by (simp_all add: s' requestAnimationFrame_frame)
  have stopped: "\<forall>a. currentAudioRef s = Some a \<and> a < length (audios s) \<longrightarrow> paused (audios s' ! a)"
    by (simp add: play(4) halted_paused)
  have eff: "new_effects s s' =
           (if now div 500 \<noteq> lastSilenceTime loop div 500 then [Console ''[VAD] RMS''] else []) @
           [Console ''[VAD] Speech detected, starting recording'',
            Console ''[Audio] Interrupting AI speech''] @
           pauses (currentAudioRef s) @ pauses (currentAudio (loop_session loop)) @
           [Console ''[VAD] Starting recording'', RecorderStart (length (mediaRecorders s))]"
    by (simp add: new_effects_def s' requestAnimationFrame_frame p2(5) p1(5) s0(10))
  from rec pend flight play stopped eff show ?thesis by blast
qed

text \<open>
  The theorem at the reference state in which the first request is in flight and nothing
  is playing, and at the one in which the second request is in flight while the first
  reply is playing.
\<close>

theorem speech_start_while_processing_witness:
  "sessionActiveRef processing_state \<and> statusLabel processing_state = ''Processing'' \<and>
   pending processing_state ! 6 = Some (AwaitInteractFetch initial_session) \<and>
   recorder_state processing_state = Some Inactive \<and>
   \<not> isSpeakingRef processing_state \<and> speechStartTimeRef processing_state = Some 910 \<and>
   recorder_state
     (snd (detectVoice \<lparr>lastSpeechTime = 910, lastSilenceTime = 900, loop_session = initial_session\<rparr>
             1020 0.02 processing_state)) = Some Recording \<and>
   in_flight
     (snd (detectVoice \<lparr>lastSpeechTime = 910, lastSilenceTime = 900, loop_session = initial_session\<rparr>
             1020 0.02 processing_state)) = 1 \<and>
   sessionActiveRef processing_playing_state \<and>
   statusLabel processing_playing_state = ''Processing'' \<and>
   pending processing_playing_state ! 10 = Some (AwaitInteractFetch initial_session) \<and>
   currentAudioRef processing_playing_state = Some 0 \<and> playing processing_playing_state 0 \<and>
   recorder_state processing_playing_state = Some Inactive \<and>
   \<not> isSpeakingRef processing_playing_state \<and>
   speechStartTimeRef processing_playing_state = Some 1810 \<and>
   new_effects processing_playing_state
     (snd (detectVoice \<lparr>lastSpeechTime = 1810, lastSilenceTime = 1800, loop_session = initial_session\<rparr>
             1920 0.02 processing_playing_state)) =
     [Console ''[VAD] Speech detected, starting recording'',
      Console ''[Audio] Interrupting AI speech'', AudioPause 0,
      Console ''[VAD] Starting recording'', RecorderStart 2] \<and>
   paused (audios
     (snd (detectVoice \<lparr>lastSpeechTime = 1810, lastSilenceTime = 1800, loop_session = initial_session\<rparr>
             1920 0.02 processing_playing_state)) ! 0) \<and>
   currentAudioRef
     (snd (detectVoice \<lparr>lastSpeechTime = 1810, lastSilenceTime = 1800, loop_session = initial_session\<rparr>
             1920 0.02 processing_playing_state)) = None \<and>
   recorder_state
     (snd (detectVoice \<lparr>lastSpeechTime = 1810, lastSilenceTime = 1800, loop_session = initial_session\<rparr>
             1920 0.02 processing_playing_state)) = Some Recording \<and>
   statusLabel
     (snd (detectVoice \<lparr>lastSpeechTime = 1810, lastSilenceTime = 1800, loop_session = initial_session\<rparr>
             1920 0.02 processing_playing_state)) = ''Processing''"
proof -
  let ?loop = "\<lparr>lastSpeechTime = 910, lastSilenceTime = 900, loop_session = initial_session\<rparr>"
  let ?loopq = "\<lparr>lastSpeechTime = 1810, lastSilenceTime = 1800, loop_session = initial_session\<rparr>"
  obtain loop' s' where dv: "detectVoice ?loop 1020 0.02 processing_state = (loop', s')"
    by (cases "detectVoice ?loop 1020 0.02 processing_state")
  obtain loopq' q' where dq: "detectVoice ?loopq 1920 0.02 processing_playing_state = (loopq', q')"
    by (cases "detectVoice ?loopq 1920 0.02 processing_playing_state")
  have h: "sessionActiveRef processing_state" "statusLabel processing_state = ''Processing''"
    "6 < length (pending processing_state)"
    "pending processing_state ! 6 = Some (AwaitInteractFetch initial_session)"
    "mediaStreamRef processing_state = Some 0"
    "recorder_state processing_state = Some Inactive"
    "\<not> isSpeakingRef processing_state" "speechStartTimeRef processing_state = Some 910"
    "in_flight processing_state = 1"
    by (simp_all add: processing_state_def statusLabel_def recorder_state_def
          initial_session_def in_flight_def)
  have h6: "recorder_state processing_state \<noteq> Some Recording"
    by (simp add: h(6))
  have t: "(1020 :: int) - 910 > MIN_SPEECH_DURATION" "(0.02 :: real) > SPEECH_THRESHOLD"
    by (simp_all add: MIN_SPEECH_DURATION_def SPEECH_THRESHOLD_def)
  have e: "snd (detectVoice ?loop 1020 0.02 processing_state) = s'"
    by (simp only: dv snd_conv)
  from speech_start_while_processing [OF h(1,2,3,4,5) h6 h(7,8) t dv] h
  have first: "recorder_state s' = Some Recording" "in_flight s' = 1"
    by simp_all
  have g: "sessionActiveRef processing_playing_state"
    "statusLabel processing_playing_state = ''Processing''"
    "10 < length (pending processing_playing_state)"
    "pending processing_playing_state ! 10 = Some (AwaitInteractFetch initial_session)"
    "mediaStreamRef processing_playing_state = Some 0"
    "recorder_state processing_playing_state = Some Inactive"
    "\<not> isSpeakingRef processing_playing_state"
    "speechStartTimeRef processing_playing_state = Some 1810"
    "currentAudioRef processing_playing_state = Some 0" "playing processing_playing_state 0"
    "length (audios processing_playing_state) = 1"
    "length (mediaRecorders processing_playing_state) = 2"
    by (simp_all add: processing_playing_state_def statusLabel_def recorder_state_def
          initial_session_def playing_def)
  have g6: "recorder_state processing_playing_state \<noteq> Some Recording"
    by (simp add: g(6))
  have tq: "(1920 :: int) - 1810 > MIN_SPEECH_DURATION"
    by (simp add: MIN_SPEECH_DURATION_def)
  have eq: "snd (detectVoice ?loopq 1920 0.02 processing_playing_state) = q'"
    by (simp only: dq snd_conv)
  have r: "lastSilenceTime ?loopq = 1800" "currentAudio (loop_session ?loopq) = None"
    by (simp_all add: initial_session_def)
  note inst = speech_start_while_processing [OF g(1,2,3,4,5) g6 g(7,8) tq t(2) dq]
  from inst have "\<forall>a. currentAudioRef processing_playing_state = Some a \<and>
      a < length (audios processing_playing_state) \<longrightarrow> paused (audios q' ! a)"
    by (elim conjE)
  with g(9,11) have halt: "paused (audios q' ! 0)"
    by simp
  from inst have "recorder_state q' = Some Recording" "statusLabel q' = ''Processing''"
    "currentAudioRef q' = None"
    by blast+
  with halt have second: "recorder_state q' = Some Recording" "statusLabel q' = ''Processing''"
    "currentAudioRef q' = None" "paused (audios q' ! 0)"
    by simp_all
  from inst have eff: "new_effects processing_playing_state q' =
     [Console ''[VAD] Speech detected, starting recording'',
      Console ''[Audio] Interrupting AI speech'', AudioPause 0,
      Console ''[VAD] Starting recording'', RecorderStart 2]"
    by (simp add: r g(9,12) pauses_def initial_session_def)
  from h first g second eff show ?thesis
    unfolding e eq by simp
qed

lemma processing_tail:
  "run [Frame 7 1020 0.02] processing_state \<noteq> None"
  "map_option statusLabel (run [Frame 7 1020 0.02] processing_state) = Some ''Processing''"
  "map_option open_recordings (run [Frame 7 1020 0.02] processing_state) = Some 1"
  "map_option in_flight (run [Frame 7 1020 0.02] processing_state) = Some 1"
  "map_option in_flight (run [Frame 7 1020 0.02, Frame 8 1800 0, RecorderEvents 1 sample_clip]
     processing_state) = Some 2"
  by (simp_all add: sample_clip_def processing_state_def component_defs statusLabel_def
        open_recordings_def in_flight_def Let_def cong: let_weak_cong)

text \<open>
  Claim C3 as stated fails. While the first request is in flight the user speaks again:
  a recorder is opened in the state \<open>Processing\<close>, and when it stops a second request is
  in flight together with the first.
\<close>

theorem recording_opened_while_processing:
  "statusLabel processing_state = ''Processing'' \<and> in_flight processing_state = 1 \<and>
   map_option statusLabel (run (processing_trace @ [Frame 7 1020 0.02]) initial_state) =
     Some ''Processing'' \<and>
   map_option open_recordings (run (processing_trace @ [Frame 7 1020 0.02]) initial_state) =
     Some 1 \<and>
   map_option in_flight
     (run (processing_trace @ [Frame 7 1020 0.02, Frame 8 1800 0, RecorderEvents 1 sample_clip])
        initial_state) = Some 2"
proof -
  have "statusLabel processing_state = ''Processing''" "in_flight processing_state = 1"
    by (simp_all add: processing_state_def statusLabel_def in_flight_def)
  then show ?thesis
    unfolding run_append run_processing_trace option.case
    by (simp only: processing_tail simp_thms)
qed

section \<open>Two playbacks at once\<close>

lemma race_tail:
  "map_option live_playbacks (run
     [Frame 7 1020 0.02, Frame 8 1800 0, RecorderEvents 1 sample_clip,
      Frame 9 1810 0.02, Frame 11 1920 0.02, Frame 12 2700 0, RecorderEvents 2 sample_clip,
      InteractResponse 6 (sample_reply ''one''), InteractResponse 10 (sample_reply ''two''),
      PlaySettled 0 False, PlaySettled 1 True,
      InteractResponse 14 (sample_reply ''three''), PlaySettled 2 True] processing_state) = Some 2"
  by (simp add: sample_clip_def sample_reply_def processing_state_def component_defs
        sample_audio live_playbacks_def Let_def cong: let_weak_cong)

text \<open>
  Claim C1 fails on the code. Three utterances are submitted before any answer arrives.
  The first answer starts element 0; the second answer stops it and starts element 1, the
  new handle; then the promise of the first \<open>play()\<close> is rejected and its handler clears
  the handle, which by now holds element 1; the third answer finds no handle to stop and
  starts element 2. Elements 1 and 2 are then playing together.
\<close>

theorem playback_race_two_live:
  "map_option live_playbacks (run playback_race_trace initial_state) = Some 2"
  unfolding playback_race_trace_def run_append run_processing_trace option.case
  by (rule race_tail)

end
